theory Spec2Isabelle
  imports Main "HOL-Library.AList"
begin

section \<open>Values and exceptions\<close>

text \<open>
  Values of TypeScript type \<open>unknown\<close>, as far as \<open>Endpoint.ts\<close> tells them apart:
  \<open>isString\<close> accepts primitive strings and \<open>String\<close> objects,
  \<open>isStream.isReadableStream\<close> accepts readable streams.
\<close>

datatype unknown =
    Undefined
  | Str string
  | StrObject string
  | Num int
  | Obj string
  | ReadableStream string
  | WritableStream string

fun isString :: "unknown \<Rightarrow> bool" where
  "isString (Str s) = True"
| "isString (StrObject s) = True"
| "isString x = False"

fun isReadableStream :: "unknown \<Rightarrow> bool" where
  "isReadableStream (ReadableStream s) = True"
| "isReadableStream x = False"

text \<open>A field error of express-validator: the field it is tied to and its message.\<close>

datatype ValidationError = ValidationError (field: string) (msg: string)

text \<open>
  \<open>exceptions/HttpException.ts\<close>: \<open>HttpException(status, message, info?)\<close>.
  The optional \<open>info\<close> is \<open>unknown\<close> in the source; the type parameter stands for it.
\<close>

datatype 'i HttpException = HttpException (status: int) (message: string) (info: "'i option")

text \<open>\<open>exceptions/BadRequestException.ts\<close>: \<open>super(400, 'Bad request', validationErrors)\<close>.\<close>

definition BadRequestException :: "ValidationError list \<Rightarrow> ValidationError list HttpException" where
  "BadRequestException validationErrors = HttpException 400 ''Bad request'' (Some validationErrors)"

text \<open>What a \<open>throw\<close> carries: an \<open>HttpException\<close> or a plain \<open>Error(message)\<close>.\<close>

datatype thrown =
    Http "ValidationError list HttpException"
  | Error string

section \<open>Requests, responses and the trace of calls\<close>

datatype EndpointType = GET | POST | DELETE | PUT

text \<open>
  \<open>ResponseType\<close> is a string enum; at run time a value is its string, and the
  \<open>default\<close> branch of \<open>sendResponse\<close> is taken by any other string.
\<close>

type_synonym ResponseType = string

definition FILE :: ResponseType where "FILE = ''file''"
definition STREAM :: ResponseType where "STREAM = ''stream''"
definition JSON :: ResponseType where "JSON = ''json''"

record ResponseHeaders =
  response_headers :: "(string \<times> string) list"
  response_status :: int

record RequestData =
  body :: unknown
  query :: unknown
  params :: unknown
  headers :: "(string \<times> string) list"

text \<open>
  The Express request: the four parts \<open>process\<close> copies into \<open>RequestData\<close>, and the
  field errors express-validator has stored on it, which \<open>validationResult(req).array()\<close>
  returns.
\<close>

record Request = RequestData +
  validationResult :: "ValidationError list"

record Response =
  statusCode :: int
  headerFields :: "(string \<times> string) list"

text \<open>
  The calls a request makes on its collaborators, in the order they happen. The trace is
  how the order of the pipeline is observed.
\<close>

datatype event =
    CallAuthMiddleware string
  | CallMiddleware string
  | CallHeaders RequestData
  | SetStatusCode int
  | SetHeader string string
  | CallExecute RequestData
  | Send unknown
  | SendFile unknown
  | Pipeline unknown
  | PipeToResponse
  | CallFileSent unknown
  | ConsoleError string
  | Uncaught thrown
  | ErrorPropagated thrown

record World =
  req :: Request
  res :: Response
  trace :: "event list"

definition emit :: "event \<Rightarrow> World \<Rightarrow> World" where
  "emit e w = w\<lparr>trace := trace w @ [e]\<rparr>"

text \<open>What a route handler did with its \<open>next\<close> callback.\<close>

datatype next_call = NotCalled | Next | NextErr thrown

text \<open>
  \<open>types.ts\<close>: \<open>MiddlewareFunc = (req, res, next) => void\<close>. A middleware is known by
  its name (the identity of the function); it may change the request and the response,
  and it calls \<open>next()\<close>, calls \<open>next(err)\<close>, or ends the request itself.
\<close>

datatype MiddlewareFunc =
  MiddlewareFunc (mw_name: string) (mw_run: "Request \<Rightarrow> Response \<Rightarrow> Request \<times> Response \<times> next_call")

text \<open>
  A \<open>ValidationChain\<close> of express-validator, by the field errors it finds on a request.
  Used as a route handler it stores them on the request and calls \<open>next()\<close>; it never
  rejects the request itself.
\<close>

type_synonym ValidationChain = "Request \<Rightarrow> ValidationError list"

text \<open>
  The response operations of Express the dispatcher calls, by their outcome:
  \<open>res.send\<close> writes the body or throws; \<open>res.sendFile\<close> throws at once or later calls
  its callback once, with the error of the transfer if it failed; \<open>stream.pipeline\<close>
  later calls its callback with the error of the relay if it failed.
\<close>

record Transport =
  send :: "unknown \<Rightarrow> thrown option"
  sendFile :: "unknown \<Rightarrow> thrown + string option"
  pipeline :: "unknown \<Rightarrow> string option"

section \<open>Endpoint\<close>

text \<open>
  The abstract class \<open>Endpoint\<close>: its private fields, and the methods a concrete endpoint
  provides or overrides (\<open>getValidator\<close>, \<open>execute\<close>, \<open>headers\<close>). A hook that throws,
  or whose promise rejects, returns \<open>Inl\<close>.
\<close>

record Endpoint =
  authRequired :: bool
  path :: string
  type :: EndpointType
  responseType :: ResponseType
  getValidator :: "ValidationChain list"
  execute :: "RequestData \<Rightarrow> thrown + unknown"
  headers_hook :: "RequestData \<Rightarrow> thrown + ResponseHeaders"

text \<open>The static fields \<open>Endpoint.middlewares\<close> and \<open>Endpoint.authMiddleware\<close>.\<close>

record Statics =
  middlewares :: "MiddlewareFunc list"
  authMiddleware :: "MiddlewareFunc option"

definition initial_statics :: Statics where
  "initial_statics = \<lparr>middlewares = [], authMiddleware = None\<rparr>"

definition registerMiddleware :: "MiddlewareFunc \<Rightarrow> Statics \<Rightarrow> Statics" where
  "registerMiddleware mw s = s\<lparr>middlewares := middlewares s @ [mw]\<rparr>"

definition registerAuthMiddleware :: "MiddlewareFunc \<Rightarrow> Statics \<Rightarrow> Statics" where
  "registerAuthMiddleware mw s = s\<lparr>authMiddleware := Some mw\<rparr>"

text \<open>The default \<open>headers\<close> hook: no headers, status 200.\<close>

definition default_headers :: "RequestData \<Rightarrow> thrown + ResponseHeaders" where
  "default_headers data = Inr \<lparr>response_headers = [], response_status = 200\<rparr>"

text \<open>
  The constructor, with the field initialisers \<open>authRequired = true\<close> and
  \<open>responseType = ResponseType.JSON\<close>.
\<close>

definition new_Endpoint ::
  "string \<Rightarrow> EndpointType \<Rightarrow> ValidationChain list \<Rightarrow> (RequestData \<Rightarrow> thrown + unknown) \<Rightarrow> Endpoint" where
  "new_Endpoint p t validator exec =
     \<lparr>authRequired = True, path = p, type = t, responseType = JSON,
      getValidator = validator, execute = exec, headers_hook = default_headers\<rparr>"

definition setAuthRequired :: "bool \<Rightarrow> Endpoint \<Rightarrow> Endpoint" where
  "setAuthRequired v ep = ep\<lparr>authRequired := v\<rparr>"

definition setResponseType :: "ResponseType \<Rightarrow> Endpoint \<Rightarrow> Endpoint" where
  "setResponseType v ep = ep\<lparr>responseType := v\<rparr>"

text \<open>\<open>setHeaders\<close>: the status code first, then one \<open>res.setHeader\<close> per entry, in order.\<close>

definition setHeader :: "string \<Rightarrow> string \<Rightarrow> World \<Rightarrow> World" where
  "setHeader k v w =
     emit (SetHeader k v)
       (w\<lparr>res := (res w)\<lparr>headerFields := AList.update k v (headerFields (res w))\<rparr>\<rparr>)"

definition setHeaders :: "int \<Rightarrow> (string \<times> string) list \<Rightarrow> World \<Rightarrow> World" where
  "setHeaders st hs w =
     foldl (\<lambda>w' (k, v). setHeader k v w') (emit (SetStatusCode st) (w\<lparr>res := (res w)\<lparr>statusCode := st\<rparr>\<rparr>)) hs"

definition getValidationErrors :: "Request \<Rightarrow> ValidationError list" where
  "getValidationErrors r = validationResult r"

text \<open>
  \<open>sendResponse\<close>. \<open>Inl\<close> is a \<open>throw\<close> out of the method. The callbacks of
  \<open>res.sendFile\<close> and \<open>stream.pipeline\<close> run after the method has returned, outside the
  \<open>try\<close> of \<open>process\<close>: what they do is appended to the trace, and the \<open>Error\<close> the
  pipeline callback throws is caught by nobody (\<open>Uncaught\<close>).
\<close>

definition sendResponse :: "Transport \<Rightarrow> Endpoint \<Rightarrow> unknown \<Rightarrow> World \<Rightarrow> thrown + World" where
  "sendResponse tr ep data w =
     (if responseType ep = JSON then
        (case send tr data of
           Some e \<Rightarrow> Inl e
         | None \<Rightarrow> Inr (emit (Send data) w))
      else if responseType ep = FILE then
        (if \<not> isString data then Inl (Error ''Expected data to be a string'')
         else
           (case sendFile tr data of
              Inl e \<Rightarrow> Inl e
            | Inr err \<Rightarrow>
                (let w1 = emit (SendFile data) w;
                     w2 = (case err of
                             Some m \<Rightarrow> emit (ConsoleError (''Error sending file '' @ m)) w1
                           | None \<Rightarrow> w1)
                 in Inr (emit (CallFileSent data) w2))))
      else if responseType ep = STREAM then
        (if \<not> isReadableStream data then Inl (Error ''Expected data to be a readable stream'')
         else
           (let w1 = emit PipeToResponse (emit (Pipeline data) w)
            in case pipeline tr data of
                 Some m \<Rightarrow>
                   Inr (emit (Uncaught (Error ''Error writing stream in image endpoint''))
                         (emit (ConsoleError m)
                           (emit (ConsoleError ''Error writing stream in image endpoint'') w1)))
               | None \<Rightarrow> Inr w1))
      else Inl (Error (responseType ep @ '' is not implemented'')))"

text \<open>The object literal \<open>data\<close> that \<open>process\<close> builds from the request.\<close>

definition request_data :: "Request \<Rightarrow> RequestData" where
  "request_data r = \<lparr>body = body r, query = query r, params = params r, headers = headers r\<rparr>"

text \<open>
  \<open>process\<close>. Every \<open>throw\<close> inside the \<open>try\<close> ends in \<open>next(err)\<close>; on success
  \<open>next\<close> is not called.
\<close>

definition process :: "Transport \<Rightarrow> Endpoint \<Rightarrow> World \<Rightarrow> World \<times> next_call" where
  "process tr ep w =
     (let validationErrors = getValidationErrors (req w) in
      if length validationErrors > 0 then
        (w, NextErr (Http (BadRequestException validationErrors)))
      else
        (let data = request_data (req w)
         in case headers_hook ep data of
              Inl e \<Rightarrow> (emit (CallHeaders data) w, NextErr e)
            | Inr responseHeaders \<Rightarrow>
                (let w1 = setHeaders (response_status responseHeaders)
                            (response_headers responseHeaders) (emit (CallHeaders data) w);
                     w2 = emit (CallExecute data) w1
                 in case execute ep data of
                      Inl e \<Rightarrow> (w2, NextErr e)
                    | Inr result \<Rightarrow>
                        (case sendResponse tr ep result w2 of
                           Inl e \<Rightarrow> (w2, NextErr e)
                         | Inr w3 \<Rightarrow> (w3, NotCalled)))))"

text \<open>Calling a middleware function with \<open>(req, res, next)\<close>.\<close>

definition call_middleware :: "MiddlewareFunc \<Rightarrow> World \<Rightarrow> World \<times> next_call" where
  "call_middleware mw w =
     (case mw_run mw (req w) (res w) of
        (rq, rs, n) \<Rightarrow> (w\<lparr>req := rq, res := rs\<rparr>, n))"

text \<open>\<open>runAuthIfNeeded\<close> reads \<open>Endpoint.authMiddleware\<close> when the request arrives.\<close>

definition runAuthIfNeeded :: "Statics \<Rightarrow> Endpoint \<Rightarrow> World \<Rightarrow> World \<times> next_call" where
  "runAuthIfNeeded s ep w =
     (if authRequired ep \<and> authMiddleware s \<noteq> None then
        (case authMiddleware s of
           Some mw \<Rightarrow> call_middleware mw (emit (CallAuthMiddleware (mw_name mw)) w)
         | None \<Rightarrow> (w, Next))
      else (w, Next))"

section \<open>The router\<close>

text \<open>
  The handlers \<open>setupEndpoint\<close> hands to the Express router: the validation chains, the
  bound \<open>runAuthIfNeeded\<close>, the middleware functions spread from \<open>Endpoint.middlewares\<close>,
  and the bound \<open>process\<close>.
\<close>

datatype handler =
    ValidatorHandler ValidationChain
  | RunAuthIfNeeded Endpoint
  | Middleware MiddlewareFunc
  | Process Endpoint

record Route =
  route_method :: EndpointType
  route_path :: string
  route_handlers :: "handler list"

type_synonym Router = "Route list"

definition router_get :: "string \<Rightarrow> handler list \<Rightarrow> Router \<Rightarrow> Router" where
  "router_get p hs router = router @ [\<lparr>route_method = GET, route_path = p, route_handlers = hs\<rparr>]"

definition router_post :: "string \<Rightarrow> handler list \<Rightarrow> Router \<Rightarrow> Router" where
  "router_post p hs router = router @ [\<lparr>route_method = POST, route_path = p, route_handlers = hs\<rparr>]"

definition router_delete :: "string \<Rightarrow> handler list \<Rightarrow> Router \<Rightarrow> Router" where
  "router_delete p hs router = router @ [\<lparr>route_method = DELETE, route_path = p, route_handlers = hs\<rparr>]"

definition router_put :: "string \<Rightarrow> handler list \<Rightarrow> Router \<Rightarrow> Router" where
  "router_put p hs router = router @ [\<lparr>route_method = PUT, route_path = p, route_handlers = hs\<rparr>]"

definition setupEndpoint :: "Statics \<Rightarrow> Endpoint \<Rightarrow> Router \<Rightarrow> Router" where
  "setupEndpoint s ep router =
     (case type ep of
        GET \<Rightarrow> router_get (path ep)
          (map ValidatorHandler (getValidator ep) @ [RunAuthIfNeeded ep] @ map Middleware (middlewares s) @ [Process ep]) router
      | POST \<Rightarrow> router_post (path ep)
          (map ValidatorHandler (getValidator ep) @ [RunAuthIfNeeded ep] @ map Middleware (middlewares s) @ [Process ep]) router
      | DELETE \<Rightarrow> router_delete (path ep)
          (map ValidatorHandler (getValidator ep) @ [RunAuthIfNeeded ep] @ map Middleware (middlewares s) @ [Process ep]) router
      | PUT \<Rightarrow> router_put (path ep)
          (map ValidatorHandler (getValidator ep) @ [RunAuthIfNeeded ep] @ map Middleware (middlewares s) @ [Process ep]) router)"

text \<open>
  One handler of a route applied to a request. The statics are those of the moment the
  request arrives.
\<close>

fun run_handler :: "Transport \<Rightarrow> Statics \<Rightarrow> handler \<Rightarrow> World \<Rightarrow> World \<times> next_call" where
  "run_handler tr s (ValidatorHandler v) w =
     (w\<lparr>req := (req w)\<lparr>validationResult := validationResult (req w) @ v (req w)\<rparr>\<rparr>, Next)"
| "run_handler tr s (RunAuthIfNeeded ep) w = runAuthIfNeeded s ep w"
| "run_handler tr s (Middleware mw) w = call_middleware mw (emit (CallMiddleware (mw_name mw)) w)"
| "run_handler tr s (Process ep) w = process tr ep w"

text \<open>
  The router's dispatch of a matched request: the handlers in order. \<open>next()\<close> moves to
  the following handler; \<open>next(err)\<close> skips the rest; a handler that does not call
  \<open>next\<close> ends the chain. \<open>run_handlers\<close> returns how the chain ended.
\<close>

fun run_handlers :: "Transport \<Rightarrow> Statics \<Rightarrow> handler list \<Rightarrow> World \<Rightarrow> World \<times> next_call" where
  "run_handlers tr s [] w = (w, Next)"
| "run_handlers tr s (h # hs) w =
     (case run_handler tr s h w of
        (w', Next) \<Rightarrow> run_handlers tr s hs w'
      | (w', NextErr e) \<Rightarrow> (w', NextErr e)
      | (w', NotCalled) \<Rightarrow> (w', NotCalled))"

text \<open>An error passed to \<open>next\<close> reaches the error handler of the application.\<close>

definition dispatch :: "Transport \<Rightarrow> Statics \<Rightarrow> handler list \<Rightarrow> World \<Rightarrow> World" where
  "dispatch tr s hs w =
     (case run_handlers tr s hs w of
        (w', NextErr e) \<Rightarrow> emit (ErrorPropagated e) w'
      | (w', Next) \<Rightarrow> w'
      | (w', NotCalled) \<Rightarrow> w')"

text \<open>The handlers of the route an endpoint registers on an empty router.\<close>

definition endpoint_handlers :: "Statics \<Rightarrow> Endpoint \<Rightarrow> handler list" where
  "endpoint_handlers s ep = concat (map route_handlers (setupEndpoint s ep []))"

section \<open>Reading a trace\<close>

text \<open>The events \<open>setHeaders\<close> leaves for a \<open>ResponseHeaders\<close> value.\<close>

definition header_events :: "ResponseHeaders \<Rightarrow> event list" where
  "header_events rh =
     SetStatusCode (response_status rh) # map (\<lambda>(k, v). SetHeader k v) (response_headers rh)"

text \<open>Writes of the status line and the header fields.\<close>

fun is_header_write :: "event \<Rightarrow> bool" where
  "is_header_write (SetStatusCode n) = True"
| "is_header_write (SetHeader k v) = True"
| "is_header_write e = False"

text \<open>The calls that write the body and end the response.\<close>

fun is_terminal_write :: "event \<Rightarrow> bool" where
  "is_terminal_write (Send d) = True"
| "is_terminal_write (SendFile d) = True"
| "is_terminal_write PipeToResponse = True"
| "is_terminal_write e = False"

fun is_hook_call :: "event \<Rightarrow> bool" where
  "is_hook_call (CallHeaders d) = True"
| "is_hook_call (CallExecute d) = True"
| "is_hook_call e = False"

fun is_auth_call :: "event \<Rightarrow> bool" where
  "is_auth_call (CallAuthMiddleware n) = True"
| "is_auth_call e = False"

fun is_middleware_call :: "event \<Rightarrow> bool" where
  "is_middleware_call (CallMiddleware n) = True"
| "is_middleware_call e = False"

fun is_propagated :: "event \<Rightarrow> bool" where
  "is_propagated (ErrorPropagated e) = True"
| "is_propagated e = False"

text \<open>
  Each middleware of the list calls \<open>next()\<close>, on the request and response as the ones
  before it have left them.
\<close>

fun all_advance :: "MiddlewareFunc list \<Rightarrow> Request \<Rightarrow> Response \<Rightarrow> bool" where
  "all_advance [] rq rs = True"
| "all_advance (mw # mws) rq rs =
     (case mw_run mw rq rs of
        (rq', rs', Next) \<Rightarrow> all_advance mws rq' rs'
      | (rq', rs', NextErr e) \<Rightarrow> False
      | (rq', rs', NotCalled) \<Rightarrow> False)"

text \<open>
  The state in which \<open>process\<close> calls \<open>execute\<close>: the header hook has been called,
  its status and headers have been set, and \<open>execute\<close> is being called.
\<close>

definition ready :: "ResponseHeaders \<Rightarrow> World \<Rightarrow> World" where
  "ready rh w =
     emit (CallExecute (request_data (req w)))
       (setHeaders (response_status rh) (response_headers rh)
         (emit (CallHeaders (request_data (req w))) w))"

text \<open>
  The request after the validation chains of a route have run: each has added the field
  errors it found.
\<close>

definition validated :: "ValidationChain list \<Rightarrow> World \<Rightarrow> World" where
  "validated vs w =
     foldl (\<lambda>w' v. w'\<lparr>req := (req w')\<lparr>validationResult := validationResult (req w') @ v (req w')\<rparr>\<rparr>) w vs"

fun is_process :: "handler \<Rightarrow> bool" where
  "is_process (Process ep) = True"
| "is_process h = False"

text \<open>
  The request and response as a list of middleware leaves them, each applied to what the
  one before it returned.
\<close>

fun handed_on :: "MiddlewareFunc list \<Rightarrow> Request \<Rightarrow> Response \<Rightarrow> Request \<times> Response" where
  "handed_on [] rq rs = (rq, rs)"
| "handed_on (mw # mws) rq rs = (case mw_run mw rq rs of (rq', rs', n) \<Rightarrow> handed_on mws rq' rs')"

text \<open>
  The auth middleware \<open>runAuthIfNeeded\<close> calls for an endpoint, as a list: the registered
  one when \<open>authRequired\<close> is true, none otherwise.
\<close>

definition gate :: "Statics \<Rightarrow> Endpoint \<Rightarrow> MiddlewareFunc list" where
  "gate s ep =
     (if authRequired ep
      then (case authMiddleware s of Some mw \<Rightarrow> [mw] | None \<Rightarrow> [])
      else [])"

text \<open>The handlers of a route that come before \<open>process\<close>.\<close>

definition before_process :: "Statics \<Rightarrow> Endpoint \<Rightarrow> handler list" where
  "before_process s ep =
     map ValidatorHandler (getValidator ep) @ RunAuthIfNeeded ep # map Middleware (middlewares s)"

text \<open>The call \<open>runAuthIfNeeded\<close> makes on the auth middleware, if it makes one.\<close>

definition auth_call :: "Statics \<Rightarrow> Endpoint \<Rightarrow> event list" where
  "auth_call s ep =
     (if authRequired ep
      then (case authMiddleware s of Some mw \<Rightarrow> [CallAuthMiddleware (mw_name mw)] | None \<Rightarrow> [])
      else [])"

section \<open>Example endpoints\<close>

text \<open>A request that has not been through any handler yet, with the given body.\<close>

definition fresh_world :: "unknown \<Rightarrow> World" where
  "fresh_world b =
     \<lparr>req = \<lparr>body = b, query = Undefined, params = Undefined, headers = [], validationResult = []\<rparr>,
      res = \<lparr>statusCode = 200, headerFields = []\<rparr>,
      trace = []\<rparr>"

text \<open>A transport on which every transfer succeeds, and one on which every transfer fails.\<close>

definition working_transport :: Transport where
  "working_transport = \<lparr>send = (\<lambda>d. None), sendFile = (\<lambda>d. Inr None), pipeline = (\<lambda>d. None)\<rparr>"

definition broken_transport :: Transport where
  "broken_transport =
     \<lparr>send = (\<lambda>d. None), sendFile = (\<lambda>d. Inr (Some ''ECONNRESET'')), pipeline = (\<lambda>d. Some ''EPIPE'')\<rparr>"

text \<open>
  A transport whose \<open>res.sendFile\<close> throws at once on a path that is not absolute, as
  that of Express does, and transfers every other file.
\<close>

fun absolute_path :: "unknown \<Rightarrow> bool" where
  "absolute_path (Str (c # cs)) = (c = CHR ''/'')"
| "absolute_path x = False"

definition strict_transport :: Transport where
  "strict_transport =
     \<lparr>send = (\<lambda>d. None),
      sendFile = (\<lambda>d. if absolute_path d then Inr None
                      else Inl (Error ''path must be absolute or specify root to res.sendFile'')),
      pipeline = (\<lambda>d. None)\<rparr>"

text \<open>A middleware that only calls \<open>next()\<close>, and one that calls \<open>next(err)\<close>.\<close>

definition pass_on :: "string \<Rightarrow> MiddlewareFunc" where
  "pass_on n = MiddlewareFunc n (\<lambda>rq rs. (rq, rs, Next))"

definition reject :: "string \<Rightarrow> MiddlewareFunc" where
  "reject n = MiddlewareFunc n (\<lambda>rq rs. (rq, rs, NextErr (Error ''rejected'')))"

text \<open>A middleware that answers 401 itself and does not call \<open>next\<close>.\<close>

definition deny :: "string \<Rightarrow> MiddlewareFunc" where
  "deny n = MiddlewareFunc n (\<lambda>rq rs. (rq, rs\<lparr>statusCode := 401\<rparr>, NotCalled))"

text \<open>A middleware that marks the response with a header and calls \<open>next()\<close>.\<close>

definition stamp :: "string \<Rightarrow> MiddlewareFunc" where
  "stamp n =
     MiddlewareFunc n
       (\<lambda>rq rs. (rq, rs\<lparr>headerFields := headerFields rs @ [(''x-seen-by'', n)]\<rparr>, Next))"

text \<open>A validation chain that requires a body.\<close>

definition name_required :: ValidationChain where
  "name_required r = (if body r = Undefined then [ValidationError ''name'' ''Invalid value''] else [])"

text \<open>\<open>POST /items\<close> with that chain; \<open>execute\<close> returns its body.\<close>

definition items_endpoint :: Endpoint where
  "items_endpoint = new_Endpoint ''/items'' POST [name_required] (\<lambda>d. Inr (body d))"

text \<open>
  \<open>GET /download\<close> sends a file; \<open>GET /export\<close> is a stream endpoint whose
  \<open>execute\<close> returns a number; \<open>GET /report\<close> is a file endpoint whose \<open>execute\<close>
  returns a relative path; \<open>GET /feed\<close> has a response type outside the enum.
\<close>

definition download_endpoint :: Endpoint where
  "download_endpoint =
     setResponseType FILE (new_Endpoint ''/download'' GET [] (\<lambda>d. Inr (Str ''/tmp/report.pdf'')))"

definition export_endpoint :: Endpoint where
  "export_endpoint = setResponseType STREAM (new_Endpoint ''/export'' GET [] (\<lambda>d. Inr (Num 5)))"

definition report_endpoint :: Endpoint where
  "report_endpoint =
     setResponseType FILE (new_Endpoint ''/report'' GET [] (\<lambda>d. Inr (Str ''report.pdf'')))"

definition feed_endpoint :: Endpoint where
  "feed_endpoint = setResponseType ''xml'' (new_Endpoint ''/feed'' GET [] (\<lambda>d. Inr (Obj ''feed'')))"

text \<open>The same endpoint with \<open>setAuthRequired(false)\<close>.\<close>

definition open_endpoint :: Endpoint where
  "open_endpoint = setAuthRequired False items_endpoint"


definition no_headers_endpoint :: Endpoint where
  "no_headers_endpoint = items_endpoint\<lparr>headers_hook := (\<lambda>d. Inl (Error ''no headers''))\<rparr>"

definition failing_endpoint :: Endpoint where
  "failing_endpoint = items_endpoint\<lparr>execute := (\<lambda>d. Inl (Error ''boom''))\<rparr>"

text \<open>\<open>GET /video\<close> is a stream endpoint whose \<open>execute\<close> returns a readable stream.\<close>

definition video_endpoint :: Endpoint where
  "video_endpoint =
     setResponseType STREAM (new_Endpoint ''/video'' GET [] (\<lambda>d. Inr (ReadableStream ''video'')))"

text \<open>An auth middleware and one shared middleware, both registered before any endpoint.\<close>

definition guarded_statics :: Statics where
  "guarded_statics =
     registerMiddleware (pass_on ''A'') (registerAuthMiddleware (pass_on ''auth'') initial_statics)"

text \<open>
  Statics whose auth middleware and shared middleware mark the response; statics whose
  auth middleware answers 401, or calls \<open>next(err)\<close>; statics whose first shared middleware
  calls \<open>next(err)\<close>; statics whose second of three shared middleware calls \<open>next(err)\<close>.
\<close>

definition stamped_statics :: Statics where
  "stamped_statics =
     registerMiddleware (stamp ''A'') (registerAuthMiddleware (stamp ''auth'') initial_statics)"

definition denying_statics :: Statics where
  "denying_statics =
     registerMiddleware (stamp ''A'') (registerAuthMiddleware (deny ''auth'') initial_statics)"

definition refusing_statics :: Statics where
  "refusing_statics = registerAuthMiddleware (reject ''auth'') initial_statics"


definition halting_statics :: Statics where
  "halting_statics =
     registerMiddleware (stamp ''C'')
       (registerMiddleware (reject ''R'') (registerMiddleware (stamp ''A'') initial_statics))"

text \<open>A request on which express-validator has stored two field errors.\<close>

definition invalid_world :: World where
  "invalid_world =
     (fresh_world Undefined)
       \<lparr>req := (req (fresh_world Undefined))
          \<lparr>validationResult :=
             [ValidationError ''name'' ''Invalid value'', ValidationError ''age'' ''Must be a number'']\<rparr>\<rparr>"

section \<open>Traces of the building blocks\<close>

lemma trace_emit [simp]: "trace (emit e w) = trace w @ [e]"
  and req_emit [simp]: "req (emit e w) = req w"
  and res_emit [simp]: "res (emit e w) = res w"
  by (simp_all add: emit_def)

lemma setHeader_simps [simp]:
  "trace (setHeader k v w) = trace w @ [SetHeader k v]"
  "req (setHeader k v w) = req w"
  by (simp_all add: setHeader_def)

lemma foldl_setHeader_trace:
  "trace (foldl (\<lambda>w' (k, v). setHeader k v w') w hs) = trace w @ map (\<lambda>(k, v). SetHeader k v) hs"
  by (induction hs arbitrary: w) auto

lemma foldl_setHeader_req:
  "req (foldl (\<lambda>w' (k, v). setHeader k v w') w hs) = req w"
  by (induction hs arbitrary: w) auto

lemma trace_setHeaders [simp]:
  "trace (setHeaders (response_status rh) (response_headers rh) w) = trace w @ header_events rh"
  by (simp add: setHeaders_def foldl_setHeader_trace header_events_def)

lemma req_setHeaders [simp]: "req (setHeaders st hs w) = req w"
  by (simp add: setHeaders_def foldl_setHeader_req)

lemma trace_ready [simp]:
  "trace (ready rh w) =
     trace w @ CallHeaders (request_data (req w)) # header_events rh @ [CallExecute (request_data (req w))]"
  by (simp add: ready_def)

lemma header_events_filters [simp]:
  "filter is_terminal_write (header_events rh) = []"
  "filter is_propagated (header_events rh) = []"
  "filter is_auth_call (header_events rh) = []"
  "filter is_middleware_call (header_events rh) = []"
  "filter is_hook_call (header_events rh) = []"
  by (auto simp: header_events_def filter_empty_conv)

lemma sendResponse_Inr:
  assumes "sendResponse tr ep d w = Inr w'"
  shows "\<exists>new. trace w' = trace w @ new \<and> length (filter is_terminal_write new) = 1
           \<and> filter is_propagated new = [] \<and> filter is_auth_call new = []
           \<and> filter is_middleware_call new = [] \<and> filter is_hook_call new = []
           \<and> filter is_header_write new = []"
  using assms
  by (auto simp: sendResponse_def Let_def split: if_splits option.splits sum.splits)

section \<open>The five ways through \<open>process\<close>\<close>

lemma process_invalid:
  "getValidationErrors (req w) \<noteq> [] \<Longrightarrow>
     process tr ep w = (w, NextErr (Http (BadRequestException (getValidationErrors (req w)))))"
  by (simp add: process_def Let_def)

lemma process_hook_throws:
  "getValidationErrors (req w) = [] \<Longrightarrow> headers_hook ep (request_data (req w)) = Inl e \<Longrightarrow>
     process tr ep w = (emit (CallHeaders (request_data (req w))) w, NextErr e)"
  by (simp add: process_def Let_def)

lemma process_execute_throws:
  "getValidationErrors (req w) = [] \<Longrightarrow> headers_hook ep (request_data (req w)) = Inr rh \<Longrightarrow>
   execute ep (request_data (req w)) = Inl e \<Longrightarrow>
     process tr ep w = (ready rh w, NextErr e)"
  by (simp add: process_def ready_def Let_def)

lemma process_send_throws:
  "getValidationErrors (req w) = [] \<Longrightarrow> headers_hook ep (request_data (req w)) = Inr rh \<Longrightarrow>
   execute ep (request_data (req w)) = Inr result \<Longrightarrow>
   sendResponse tr ep result (ready rh w) = Inl e \<Longrightarrow>
     process tr ep w = (ready rh w, NextErr e)"
  by (simp add: process_def ready_def Let_def)

lemma process_sent:
  "getValidationErrors (req w) = [] \<Longrightarrow> headers_hook ep (request_data (req w)) = Inr rh \<Longrightarrow>
   execute ep (request_data (req w)) = Inr result \<Longrightarrow>
   sendResponse tr ep result (ready rh w) = Inr w3 \<Longrightarrow>
     process tr ep w = (w3, NotCalled)"
  by (simp add: process_def ready_def Let_def)

lemma process_trace:
  "\<exists>new. trace (fst (process tr ep w)) = trace w @ new
      \<and> filter is_propagated new = [] \<and> filter is_auth_call new = []
      \<and> filter is_middleware_call new = []
      \<and> length (filter is_terminal_write new) \<le> 1
      \<and> (\<forall>e. snd (process tr ep w) = NextErr e \<longrightarrow> filter is_terminal_write new = [])
      \<and> snd (process tr ep w) \<noteq> Next"
proof (cases "getValidationErrors (req w) = []")
  case False
  then show ?thesis by (simp add: process_invalid)
next
  case valid: True
  show ?thesis
  proof (cases "headers_hook ep (request_data (req w))")
    case (Inl e)
    with valid show ?thesis by (simp add: process_hook_throws)
  next
    case (Inr rh)
    note hook = this
    show ?thesis
    proof (cases "execute ep (request_data (req w))")
      case (Inl e)
      with valid hook show ?thesis by (simp add: process_execute_throws)
    next
      case (Inr result)
      note exec = this
      show ?thesis
      proof (cases "sendResponse tr ep result (ready rh w)")
        case (Inl e)
        with valid hook exec show ?thesis by (simp add: process_send_throws)
      next
        case (Inr w3)
        from sendResponse_Inr [OF this] obtain new where
          "trace w3 = trace (ready rh w) @ new" "length (filter is_terminal_write new) = 1"
          "filter is_propagated new = []" "filter is_auth_call new = []"
          "filter is_middleware_call new = []"
          by blast
        with valid hook exec Inr show ?thesis by (simp add: process_sent)
      qed
    qed
  qed
qed

section \<open>The route\<close>

lemma run_handlers_append:
  "run_handlers tr s (hs1 @ hs2) w =
     (case run_handlers tr s hs1 w of
        (w', Next) \<Rightarrow> run_handlers tr s hs2 w'
      | (w', NextErr e) \<Rightarrow> (w', NextErr e)
      | (w', NotCalled) \<Rightarrow> (w', NotCalled))"
  by (induction hs1 arbitrary: w) (auto split: prod.splits next_call.splits)

lemma endpoint_handlers_eq:
  "endpoint_handlers s ep =
     map ValidatorHandler (getValidator ep) @ [RunAuthIfNeeded ep] @ map Middleware (middlewares s) @ [Process ep]"
  by (cases "type ep")
    (simp_all add: endpoint_handlers_def setupEndpoint_def router_get_def router_post_def
      router_delete_def router_put_def)

lemma call_middleware_simps [simp]:
  "trace (fst (call_middleware mw w)) = trace w"
  "snd (call_middleware mw w) = snd (snd (mw_run mw (req w) (res w)))"
  by (simp_all add: call_middleware_def split: prod.splits)

lemma run_validator [simp]:
  "trace (fst (run_handler tr s (ValidatorHandler v) w)) = trace w"
  "snd (run_handler tr s (ValidatorHandler v) w) = Next"
  by simp_all

lemma trace_runAuthIfNeeded:
  "trace (fst (runAuthIfNeeded s ep w)) = trace w @ auth_call s ep"
  unfolding runAuthIfNeeded_def auth_call_def
  by (cases "authRequired ep"; cases "authMiddleware s"; simp add: call_middleware_def split: prod.splits)

lemma auth_call_filters [simp]:
  "filter is_terminal_write (auth_call s ep) = []"
  "filter is_propagated (auth_call s ep) = []"
  "filter is_middleware_call (auth_call s ep) = []"
  "filter is_hook_call (auth_call s ep) = []"
  "filter is_header_write (auth_call s ep) = []"
  "filter is_auth_call (auth_call s ep) = auth_call s ep"
  unfolding auth_call_def
  by (cases "authRequired ep"; cases "authMiddleware s"; simp)+

lemma run_handler_front:
  assumes "\<not> is_process h"
  shows "\<exists>new. trace (fst (run_handler tr s h w)) = trace w @ new
           \<and> filter is_terminal_write new = [] \<and> filter is_propagated new = []"
  using assms by (cases h) (simp_all add: trace_runAuthIfNeeded)

lemma run_handlers_front:
  assumes "\<forall>h \<in> set hs. \<not> is_process h"
  shows "\<exists>new. trace (fst (run_handlers tr s hs w)) = trace w @ new
           \<and> filter is_terminal_write new = [] \<and> filter is_propagated new = []"
  using assms
proof (induction hs arbitrary: w)
  case Nil
  then show ?case by simp
next
  case (Cons h hs)
  obtain w1 n where step: "run_handler tr s h w = (w1, n)" by fastforce
  from Cons.prems have "\<not> is_process h" by simp
  from run_handler_front [OF this, of tr s w] step obtain new1 where
    n1: "trace w1 = trace w @ new1" "filter is_terminal_write new1 = []" "filter is_propagated new1 = []"
    by auto
  show ?case
  proof (cases n)
    case Next
    from Cons.IH [of w1] Cons.prems obtain new2 where
      "trace (fst (run_handlers tr s hs w1)) = trace w1 @ new2"
      "filter is_terminal_write new2 = []" "filter is_propagated new2 = []"
      by auto
    with n1 step Next show ?thesis by simp
  next
    case NotCalled
    with n1 step show ?thesis by simp
  next
    case (NextErr e)
    with n1 step show ?thesis by simp
  qed
qed

lemma run_handler_statics:
  "run_handler tr (s\<lparr>middlewares := ms\<rparr>) h w = run_handler tr s h w"
  by (cases h) (simp_all add: runAuthIfNeeded_def)

lemma run_handlers_statics:
  "run_handlers tr (s\<lparr>middlewares := ms\<rparr>) hs w = run_handlers tr s hs w"
  by (induction hs arbitrary: w) (simp_all add: run_handler_statics)

lemma run_handlers_filter:
  assumes "\<And>h w. h \<in> set hs \<Longrightarrow> filter P (trace (fst (run_handler tr s h w))) = filter P (trace w)"
  shows "filter P (trace (fst (run_handlers tr s hs w))) = filter P (trace w)"
  using assms
proof (induction hs arbitrary: w)
  case Nil
  then show ?case by simp
next
  case (Cons h hs)
  obtain w1 n where step: "run_handler tr s h w = (w1, n)" by fastforce
  have one: "filter P (trace w1) = filter P (trace w)"
    using Cons.prems [of h w] step by simp
  show ?case
  proof (cases n)
    case Next
    have "filter P (trace (fst (run_handlers tr s hs w1))) = filter P (trace w1)"
      using Cons.IH [of w1] Cons.prems by simp
    with one step Next show ?thesis by simp
  next
    case NotCalled
    with one step show ?thesis by simp
  next
    case (NextErr e)
    with one step show ?thesis by simp
  qed
qed

lemma dispatch_filter:
  assumes "\<And>e. \<not> P (ErrorPropagated e)"
  shows "filter P (trace (dispatch tr s hs w)) = filter P (trace (fst (run_handlers tr s hs w)))"
  using assms by (simp add: dispatch_def split: prod.splits next_call.splits)

lemma process_no_auth_call:
  "filter is_auth_call (trace (fst (process tr ep w))) = filter is_auth_call (trace w)"
  using process_trace [of tr ep w] by auto

lemma process_no_middleware_call:
  "filter is_middleware_call (trace (fst (process tr ep w))) = filter is_middleware_call (trace w)"
  using process_trace [of tr ep w] by auto

lemma outcome_case_id [simp]:
  "(case r of (w', NotCalled) \<Rightarrow> (w', NotCalled) | (w', Next) \<Rightarrow> (w', Next)
      | (w', NextErr e) \<Rightarrow> (w', NextErr e)) = r"
  by (cases r) (auto split: next_call.splits)

lemma run_handlers_append_filter:
  assumes "\<And>w'. filter P (trace (fst (run_handlers tr s hs2 w'))) = filter P (trace w')"
  shows "filter P (trace (fst (run_handlers tr s (hs1 @ hs2) w))) =
         filter P (trace (fst (run_handlers tr s hs1 w)))"
  using assms by (simp add: run_handlers_append split: prod.splits next_call.splits)

lemma run_handlers_after_validators:
  "\<exists>w1. run_handlers tr s (map ValidatorHandler vs @ hs) w = run_handlers tr s hs w1 \<and>
        trace w1 = trace w \<and> res w1 = res w"
proof (induction vs arbitrary: w)
  case Nil
  show ?case by (rule exI [of _ w]) simp
next
  case (Cons v vs)
  let ?w = "w\<lparr>req := (req w)\<lparr>validationResult := validationResult (req w) @ v (req w)\<rparr>\<rparr>"
  from Cons.IH [of ?w] obtain w1 where
    "run_handlers tr s (map ValidatorHandler vs @ hs) ?w = run_handlers tr s hs w1"
    "trace w1 = trace ?w" "res w1 = res ?w"
    by blast
  then show ?case by auto
qed

lemma auth_calls_of_route:
  "filter is_auth_call (trace (dispatch tr s (endpoint_handlers ss ep) w)) =
     filter is_auth_call (trace w) @ auth_call s ep"
proof -
  let ?vs = "map ValidatorHandler (getValidator ep)"
  let ?rest = "map Middleware (middlewares ss) @ [Process ep]"
  have rest: "filter is_auth_call (trace (fst (run_handlers tr s ?rest w'))) = filter is_auth_call (trace w')"
    for w'
    by (rule run_handlers_filter) (auto simp: process_no_auth_call)
  obtain w1 where w1: "run_handlers tr s (?vs @ [RunAuthIfNeeded ep]) w = run_handlers tr s [RunAuthIfNeeded ep] w1"
    "trace w1 = trace w"
    using run_handlers_after_validators [of tr s "getValidator ep" "[RunAuthIfNeeded ep]" w] by blast
  have "filter is_auth_call (trace (fst (run_handlers tr s ((?vs @ [RunAuthIfNeeded ep]) @ ?rest) w))) =
      filter is_auth_call (trace (fst (run_handlers tr s (?vs @ [RunAuthIfNeeded ep]) w)))"
    by (rule run_handlers_append_filter) (rule rest)
  also have "\<dots> = filter is_auth_call (trace w) @ auth_call s ep"
    using w1 by (simp add: trace_runAuthIfNeeded)
  finally show ?thesis
    by (simp add: dispatch_filter endpoint_handlers_eq)
qed

lemma validated_simps [simp]:
  "trace (validated vs w) = trace w"
  "res (validated vs w) = res w"
  unfolding validated_def by (induction vs arbitrary: w) simp_all

lemma run_handlers_validators:
  "run_handlers tr s (map ValidatorHandler vs @ hs) w = run_handlers tr s hs (validated vs w)"
  unfolding validated_def by (induction vs arbitrary: w) simp_all

lemma run_route:
  "run_handlers tr s (endpoint_handlers ss ep) w =
     (case runAuthIfNeeded s ep (validated (getValidator ep) w) of
        (w2, Next) \<Rightarrow>
          (case run_handlers tr s (map Middleware (middlewares ss)) w2 of
             (w3, Next) \<Rightarrow> process tr ep w3
           | (w3, NextErr e) \<Rightarrow> (w3, NextErr e)
           | (w3, NotCalled) \<Rightarrow> (w3, NotCalled))
      | (w2, NextErr e) \<Rightarrow> (w2, NextErr e)
      | (w2, NotCalled) \<Rightarrow> (w2, NotCalled))"
proof -
  have last: "run_handlers tr s (map Middleware (middlewares ss) @ [Process ep]) w2 =
      (case run_handlers tr s (map Middleware (middlewares ss)) w2 of
         (w3, Next) \<Rightarrow> process tr ep w3
       | (w3, NextErr e) \<Rightarrow> (w3, NextErr e)
       | (w3, NotCalled) \<Rightarrow> (w3, NotCalled))" for w2
    by (simp add: run_handlers_append split: prod.splits next_call.splits)
  have "run_handlers tr s (endpoint_handlers ss ep) w =
      run_handlers tr s (RunAuthIfNeeded ep # (map Middleware (middlewares ss) @ [Process ep]))
        (validated (getValidator ep) w)"
    by (simp only: endpoint_handlers_eq run_handlers_validators append_Cons append_Nil)
  then show ?thesis
    by (simp only: run_handlers.simps run_handler.simps last)
qed

lemma run_middlewares_prefix:
  "\<exists>k. filter is_middleware_call (trace (fst (run_handlers tr s (map Middleware mws) w))) =
        filter is_middleware_call (trace w) @ map (\<lambda>mw. CallMiddleware (mw_name mw)) (take k mws)"
proof (induction mws arbitrary: w)
  case Nil
  show ?case by simp
next
  case (Cons mw mws)
  obtain w1 n where step: "call_middleware mw (emit (CallMiddleware (mw_name mw)) w) = (w1, n)"
    by fastforce
  have t1: "trace w1 = trace w @ [CallMiddleware (mw_name mw)]"
    using step call_middleware_simps(1) [of mw "emit (CallMiddleware (mw_name mw)) w"] by simp
  show ?case
  proof (cases n)
    case Next
    from Cons.IH [of w1] obtain k where
      "filter is_middleware_call (trace (fst (run_handlers tr s (map Middleware mws) w1))) =
        filter is_middleware_call (trace w1) @ map (\<lambda>mw. CallMiddleware (mw_name mw)) (take k mws)"
      by blast
    with step Next t1 show ?thesis
      by (intro exI [of _ "Suc k"]) simp
  next
    case NotCalled
    with step t1 show ?thesis by (intro exI [of _ "Suc 0"]) simp
  next
    case (NextErr e)
    with step t1 show ?thesis by (intro exI [of _ "Suc 0"]) simp
  qed
qed

lemma middleware_calls_of_route:
  "\<exists>k. filter is_middleware_call (trace (dispatch tr s (endpoint_handlers ss ep) w)) =
        filter is_middleware_call (trace w) @ map (\<lambda>mw. CallMiddleware (mw_name mw)) (take k (middlewares ss))"
proof -
  let ?mws = "map Middleware (middlewares ss)"
  let ?P = is_middleware_call
  let ?w1 = "validated (getValidator ep) w"
  obtain w2 n where auth: "runAuthIfNeeded s ep ?w1 = (w2, n)" by fastforce
  have t2: "filter ?P (trace w2) = filter ?P (trace w)"
    using trace_runAuthIfNeeded [of s ep ?w1] auth by simp
  show ?thesis
  proof (cases n)
    case Next
    obtain w3 m where mws: "run_handlers tr s ?mws w2 = (w3, m)" by fastforce
    from run_middlewares_prefix [of tr s "middlewares ss" w2] mws obtain k where
      k: "filter ?P (trace w3) =
        filter ?P (trace w2) @ map (\<lambda>mw. CallMiddleware (mw_name mw)) (take k (middlewares ss))"
      by auto
    show ?thesis
      using auth Next mws k t2
      by (intro exI [of _ k]) (cases m; simp add: dispatch_filter run_route process_no_middleware_call)
  next
    case NotCalled
    with auth t2 show ?thesis
      by (intro exI [of _ 0]) (simp add: dispatch_filter run_route)
  next
    case (NextErr e)
    with auth t2 show ?thesis
      by (intro exI [of _ 0]) (simp add: dispatch_filter run_route)
  qed
qed

lemma dispatch_statics:
  "dispatch tr (s\<lparr>middlewares := ms\<rparr>) hs w = dispatch tr s hs w"
  by (simp add: dispatch_def run_handlers_statics)





lemma res_foldl_setHeader_cong:
  "res w = res w' \<Longrightarrow>
     res (foldl (\<lambda>w' (k, v). setHeader k v w') w hs) = res (foldl (\<lambda>w' (k, v). setHeader k v w') w' hs)"
proof (induction hs arbitrary: w w')
  case Nil
  then show ?case by simp
next
  case (Cons h hs)
  obtain k v where h: "h = (k, v)" by (cases h)
  have "res (setHeader k v w) = res (setHeader k v w')"
    using Cons.prems by (simp add: setHeader_def)
  from Cons.IH [OF this] h show ?case by simp
qed


lemma res_ready [simp]:
  "res (ready rh w) = res (setHeaders (response_status rh) (response_headers rh) w)"
  by (simp add: ready_def setHeaders_def res_foldl_setHeader_cong)

lemma route_front_no_write:
  "\<exists>new. trace (fst (run_handlers tr s (map Middleware mws) w)) = trace w @ new
      \<and> filter is_terminal_write new = [] \<and> filter is_propagated new = []"
  by (rule run_handlers_front) auto

lemma route_trace:
  "\<exists>new. trace (fst (run_handlers tr s (endpoint_handlers ss ep) w)) = trace w @ new
      \<and> filter is_propagated new = []
      \<and> length (filter is_terminal_write new) \<le> 1
      \<and> (\<forall>e. snd (run_handlers tr s (endpoint_handlers ss ep) w) = NextErr e \<longrightarrow>
            filter is_terminal_write new = [])"
proof -
  let ?w1 = "validated (getValidator ep) w"
  obtain wa n where auth: "runAuthIfNeeded s ep ?w1 = (wa, n)" by fastforce
  have ta: "trace wa = trace w @ auth_call s ep"
    using trace_runAuthIfNeeded [of s ep ?w1] auth by simp
  show ?thesis
  proof (cases n)
    case NotCalled
    with auth ta show ?thesis by (simp add: run_route)
  next
    case (NextErr e)
    with auth ta show ?thesis by (simp add: run_route)
  next
    case Next
    obtain wm m where mws: "run_handlers tr s (map Middleware (middlewares ss)) wa = (wm, m)"
      by fastforce
    from route_front_no_write [of tr s "middlewares ss" wa] mws obtain new1 where
      tm: "trace wm = trace wa @ new1" "filter is_terminal_write new1 = []"
        "filter is_propagated new1 = []"
      by auto
    show ?thesis
    proof (cases m)
      case NotCalled
      with auth Next mws ta tm show ?thesis by (simp add: run_route)
    next
      case (NextErr e)
      with auth Next mws ta tm show ?thesis by (simp add: run_route)
    next
      case mnext: Next
      from process_trace [of tr ep wm] obtain new2 where
        "trace (fst (process tr ep wm)) = trace wm @ new2" "filter is_propagated new2 = []"
        "length (filter is_terminal_write new2) \<le> 1"
        "\<forall>e. snd (process tr ep wm) = NextErr e \<longrightarrow> filter is_terminal_write new2 = []"
        by blast
      with auth Next mws mnext ta tm show ?thesis by (simp add: run_route)
    qed
  qed
qed

section \<open>What the middleware functions do to a request\<close>

lemma run_middleware_eq:
  "mw_run mw (req w) (res w) = (rq, rs, n) \<Longrightarrow>
     run_handler tr s (Middleware mw) w =
       (w\<lparr>req := rq, res := rs, trace := trace w @ [CallMiddleware (mw_name mw)]\<rparr>, n)"
  by (simp add: call_middleware_def emit_def)

lemma run_middlewares_all:
  "all_advance mws (req w) (res w) \<Longrightarrow>
     run_handlers tr s (map Middleware mws) w =
       (w\<lparr>req := fst (handed_on mws (req w) (res w)),
          res := snd (handed_on mws (req w) (res w)),
          trace := trace w @ map (\<lambda>m. CallMiddleware (mw_name m)) mws\<rparr>, Next)"
proof (induction mws arbitrary: w)
  case Nil
  show ?case by simp
next
  case (Cons mw mws)
  obtain rq rs n where run: "mw_run mw (req w) (res w) = (rq, rs, n)"
    by (cases "mw_run mw (req w) (res w)") auto
  with Cons.prems have n: "n = Next" and rest: "all_advance mws rq rs"
    by (cases n; simp)+
  let ?w = "w\<lparr>req := rq, res := rs, trace := trace w @ [CallMiddleware (mw_name mw)]\<rparr>"
  have step: "run_handler tr s (Middleware mw) w = (?w, Next)"
    using run_middleware_eq [OF run] n by simp
  have "all_advance mws (req ?w) (res ?w)" using rest by simp
  from Cons.IH [OF this] step run show ?case by simp
qed


lemma auth_call_gate: "auth_call s ep = map (\<lambda>m. CallAuthMiddleware (mw_name m)) (gate s ep)"
  unfolding auth_call_def gate_def
  by (cases "authRequired ep"; cases "authMiddleware s"; simp)

lemma runAuthIfNeeded_none:
  "gate s ep = [] \<Longrightarrow> runAuthIfNeeded s ep w = (w, Next)"
  unfolding gate_def runAuthIfNeeded_def
  by (cases "authRequired ep"; cases "authMiddleware s"; simp)

lemma runAuthIfNeeded_gate:
  "gate s ep = [mw] \<Longrightarrow> mw_run mw (req w) (res w) = (rq, rs, n) \<Longrightarrow>
     runAuthIfNeeded s ep w =
       (w\<lparr>req := rq, res := rs, trace := trace w @ [CallAuthMiddleware (mw_name mw)]\<rparr>, n)"
  unfolding gate_def runAuthIfNeeded_def
  by (cases "authRequired ep"; cases "authMiddleware s"; simp add: call_middleware_def emit_def)

lemma gate_cases: "gate s ep = [] \<or> (\<exists>mw. gate s ep = [mw])"
  unfolding gate_def by (cases "authRequired ep"; cases "authMiddleware s"; simp)

lemma gate_Some:
  "authRequired ep \<Longrightarrow> authMiddleware s = Some mw \<Longrightarrow> gate s ep = [mw]"
  by (simp add: gate_def)

lemma run_gate_and_middlewares_all:
  assumes "all_advance (gate s ep @ mws) (req v) (res v)"
  shows "run_handlers tr s (RunAuthIfNeeded ep # map Middleware mws) v =
       (v\<lparr>req := fst (handed_on (gate s ep @ mws) (req v) (res v)),
          res := snd (handed_on (gate s ep @ mws) (req v) (res v)),
          trace := trace v @ auth_call s ep @ map (\<lambda>m. CallMiddleware (mw_name m)) mws\<rparr>, Next)"
proof -
  from gate_cases [of s ep] show ?thesis
  proof
    assume none: "gate s ep = []"
    with assms have "all_advance mws (req v) (res v)" by simp
    from run_middlewares_all [OF this, of tr s] none show ?thesis
      by (simp add: runAuthIfNeeded_none auth_call_gate)
  next
    assume "\<exists>mw. gate s ep = [mw]"
    then obtain mw where one: "gate s ep = [mw]" by blast
    obtain rq rs n where run: "mw_run mw (req v) (res v) = (rq, rs, n)"
      by (cases "mw_run mw (req v) (res v)") auto
    with assms one have n: "n = Next" and rest: "all_advance mws rq rs"
      by (cases n; simp)+
    let ?v = "v\<lparr>req := rq, res := rs, trace := trace v @ [CallAuthMiddleware (mw_name mw)]\<rparr>"
    have auth: "runAuthIfNeeded s ep v = (?v, Next)"
      using runAuthIfNeeded_gate [OF one run] n by simp
    have "all_advance mws (req ?v) (res ?v)" using rest by simp
    from run_middlewares_all [OF this, of tr s] auth one run show ?thesis
      by (simp add: auth_call_gate)
  qed
qed

lemma endpoint_handlers_before_process:
  "endpoint_handlers ss ep = before_process ss ep @ [Process ep]"
  by (simp add: endpoint_handlers_eq before_process_def)

lemma run_before_process:
  "run_handlers tr s (before_process ss ep) w =
     run_handlers tr s (RunAuthIfNeeded ep # map Middleware (middlewares ss)) (validated (getValidator ep) w)"
  by (simp only: before_process_def run_handlers_validators)

lemma dispatch_at_failure:
  assumes "run_handlers tr s pre w = (v, Next)"
    and "run_handler tr s h v = (v', NextErr x)"
  shows "dispatch tr s (pre @ h # post) w = emit (ErrorPropagated x) v'"
  using assms by (simp add: dispatch_def run_handlers_append)

lemma dispatch_at_stop:
  assumes "run_handlers tr s pre w = (v, Next)"
    and "run_handler tr s h v = (v', NotCalled)"
  shows "dispatch tr s (pre @ h # post) w = v'"
  using assms by (simp add: dispatch_def run_handlers_append)

lemma dispatch_after:
  assumes "run_handlers tr s pre w = (v, Next)"
  shows "dispatch tr s (pre @ post) w = dispatch tr s post v"
  using assms by (simp add: dispatch_def run_handlers_append)

lemma route_through_gate:
  assumes "authRequired ep" and "authMiddleware s = Some mw"
  shows "dispatch tr s (endpoint_handlers ss ep) w =
      (case mw_run mw (req (validated (getValidator ep) w)) (res w) of
         (rq, rs, Next) \<Rightarrow>
           dispatch tr s (map Middleware (middlewares ss) @ [Process ep])
             \<lparr>req = rq, res = rs, trace = trace w @ [CallAuthMiddleware (mw_name mw)]\<rparr>
       | (rq, rs, NextErr e) \<Rightarrow>
           \<lparr>req = rq, res = rs,
            trace = trace w @ [CallAuthMiddleware (mw_name mw), ErrorPropagated e]\<rparr>
       | (rq, rs, NotCalled) \<Rightarrow>
           \<lparr>req = rq, res = rs, trace = trace w @ [CallAuthMiddleware (mw_name mw)]\<rparr>)"
proof -
  let ?v = "validated (getValidator ep) w"
  obtain rq rs n where run: "mw_run mw (req ?v) (res ?v) = (rq, rs, n)"
    by (cases "mw_run mw (req ?v) (res ?v)") auto
  have vs: "run_handlers tr s (map ValidatorHandler (getValidator ep)) w = (?v, Next)"
    using run_handlers_validators [of tr s "getValidator ep" "[]" w] by simp
  have auth: "run_handler tr s (RunAuthIfNeeded ep) ?v =
      (\<lparr>req = rq, res = rs, trace = trace w @ [CallAuthMiddleware (mw_name mw)]\<rparr>, n)"
    using runAuthIfNeeded_gate [OF gate_Some [OF assms] run] by simp
  have route: "endpoint_handlers ss ep =
      map ValidatorHandler (getValidator ep) @ RunAuthIfNeeded ep
        # (map Middleware (middlewares ss) @ [Process ep])"
    by (simp add: endpoint_handlers_eq)
  show ?thesis
  proof (cases n)
    case Next
    have "run_handlers tr s (map ValidatorHandler (getValidator ep) @ [RunAuthIfNeeded ep]) w =
        (\<lparr>req = rq, res = rs, trace = trace w @ [CallAuthMiddleware (mw_name mw)]\<rparr>, Next)"
      using vs auth Next by (simp add: run_handlers_append)
    from dispatch_after [OF this, of "map Middleware (middlewares ss) @ [Process ep]"] run Next
    show ?thesis by (simp add: endpoint_handlers_eq)
  next
    case (NextErr e)
    with dispatch_at_failure [OF vs, of "RunAuthIfNeeded ep" _ e] auth run route
    show ?thesis by (simp add: emit_def)
  next
    case NotCalled
    with dispatch_at_stop [OF vs, of "RunAuthIfNeeded ep"] auth run route
    show ?thesis by simp
  qed
qed

lemma route_without_gate:
  assumes "\<not> (authRequired ep \<and> authMiddleware s \<noteq> None)"
  shows "dispatch tr s (endpoint_handlers ss ep) w =
      dispatch tr s (map Middleware (middlewares ss) @ [Process ep]) (validated (getValidator ep) w)"
proof -
  let ?v = "validated (getValidator ep) w"
  have none: "gate s ep = []"
    using assms unfolding gate_def by (cases "authRequired ep"; cases "authMiddleware s"; simp)
  have vs: "run_handlers tr s (map ValidatorHandler (getValidator ep)) w = (?v, Next)"
    using run_handlers_validators [of tr s "getValidator ep" "[]" w] by simp
  have "run_handlers tr s (map ValidatorHandler (getValidator ep) @ [RunAuthIfNeeded ep]) w = (?v, Next)"
    using vs runAuthIfNeeded_none [OF none] by (simp add: run_handlers_append)
  from dispatch_after [OF this, of "map Middleware (middlewares ss) @ [Process ep]"]
  show ?thesis by (simp add: endpoint_handlers_eq)
qed

lemma dispatch_route_trace:
  "\<exists>new. trace (dispatch tr s (endpoint_handlers ss ep) w) = trace w @ new \<and>
      length (filter is_terminal_write new) \<le> 1 \<and>
      length (filter is_propagated new) \<le> 1 \<and>
      (\<forall>e. ErrorPropagated e \<in> set new \<longrightarrow>
         (\<exists>pre. new = pre @ [ErrorPropagated e] \<and> filter is_propagated pre = [] \<and>
            filter is_terminal_write pre = []))"
proof -
  obtain w' n where run: "run_handlers tr s (endpoint_handlers ss ep) w = (w', n)" by fastforce
  from route_trace [of tr s ss ep w] run obtain new where
    new: "trace w' = trace w @ new" "filter is_propagated new = []"
      "length (filter is_terminal_write new) \<le> 1"
      "\<forall>e. n = NextErr e \<longrightarrow> filter is_terminal_write new = []"
    by auto
  have none: "ErrorPropagated e \<notin> set new" for e
    using new(2) by (auto simp: filter_empty_conv)
  show ?thesis
  proof (cases n)
    case (NextErr e)
    with run new none show ?thesis
      by (intro exI [of _ "new @ [ErrorPropagated e]"]) (simp add: dispatch_def)
  next
    case Next
    with run new none show ?thesis by (intro exI [of _ new]) (simp add: dispatch_def)
  next
    case NotCalled
    with run new none show ?thesis by (intro exI [of _ new]) (simp add: dispatch_def)
  qed
qed

lemma dispatch_process_fails:
  assumes "run_handlers tr s (before_process ss ep) w = (v, Next)"
    and "process tr ep v = (v', NextErr x)"
  shows "dispatch tr s (endpoint_handlers ss ep) w = emit (ErrorPropagated x) v'"
  using dispatch_at_failure [OF assms(1), of "Process ep" v' x "[]"] assms(2)
  by (simp add: endpoint_handlers_before_process)

lemma dispatch_middleware_fails:
  assumes "middlewares ss = pre @ m # post"
    and "run_handlers tr s
      (map ValidatorHandler (getValidator ep) @ RunAuthIfNeeded ep # map Middleware pre) w = (v, Next)"
    and "mw_run m (req v) (res v) = (rq, rs, NextErr x)"
  shows "dispatch tr s (endpoint_handlers ss ep) w =
      \<lparr>req = rq, res = rs, trace = trace v @ [CallMiddleware (mw_name m), ErrorPropagated x]\<rparr>"
proof -
  have "endpoint_handlers ss ep =
      (map ValidatorHandler (getValidator ep) @ RunAuthIfNeeded ep # map Middleware pre)
        @ Middleware m # (map Middleware post @ [Process ep])"
    using assms(1) by (simp add: endpoint_handlers_eq)
  with dispatch_at_failure [OF assms(2), of "Middleware m" _ x "map Middleware post @ [Process ep]"]
    run_middleware_eq [OF assms(3), of tr s]
  show ?thesis by (simp add: emit_def)
qed

section \<open>Validation\<close>

text \<open>
  C1, as the code has it. The validation chains only store their field errors; the
  request then goes through \<open>runAuthIfNeeded\<close> and the shared middleware, and
  \<open>process\<close>, the last handler, is the one that reads the errors. On a request that the
  auth middleware (when required and registered) and every shared middleware hand on with
  \<open>next()\<close>, and on which \<open>validationResult(req)\<close> then holds one or more field errors,
  the run ends with the request and response as those middleware left them, and after the
  call of the auth middleware and the calls of the shared middleware the only thing that
  happens is that a \<open>BadRequestException\<close> with status 400 and the whole list of field
  errors reaches the error handler: no header hook, no \<open>execute\<close>, no write to the
  response.
\<close>

theorem invalid_request_rejected_by_process:
  assumes pass: "all_advance (gate s ep @ middlewares ss) (req (validated (getValidator ep) w)) (res w)"
    and left: "handed_on (gate s ep @ middlewares ss) (req (validated (getValidator ep) w)) (res w) = (rq, rs)"
    and invalid: "getValidationErrors rq \<noteq> []"
  shows "dispatch tr s (endpoint_handlers ss ep) w =
           \<lparr>req = rq, res = rs,
            trace = trace w
              @ map (\<lambda>m. CallAuthMiddleware (mw_name m)) (gate s ep)
              @ map (\<lambda>m. CallMiddleware (mw_name m)) (middlewares ss)
              @ [ErrorPropagated (Http (HttpException 400 ''Bad request'' (Some (getValidationErrors rq))))]\<rparr>"
proof -
  let ?v = "validated (getValidator ep) w"
  let ?wp = "?v\<lparr>req := rq, res := rs,
      trace := trace ?v @ auth_call s ep @ map (\<lambda>m. CallMiddleware (mw_name m)) (middlewares ss)\<rparr>"
  have "all_advance (gate s ep @ middlewares ss) (req ?v) (res ?v)" using pass by simp
  from run_gate_and_middlewares_all [OF this, of tr] left
  have reach: "run_handlers tr s (before_process ss ep) w = (?wp, Next)"
    by (simp add: run_before_process)
  have "getValidationErrors (req ?wp) \<noteq> []" using invalid by simp
  from process_invalid [OF this, of tr ep]
  have "run_handler tr s (Process ep) ?wp =
      (?wp, NextErr (Http (BadRequestException (getValidationErrors rq))))"
    by simp
  from dispatch_at_failure [OF reach this, of "[]"] show ?thesis
    by (simp add: endpoint_handlers_before_process emit_def auth_call_gate BadRequestException_def)
qed

theorem invalid_request_rejected_by_process_witness:
  "all_advance (gate stamped_statics items_endpoint @ middlewares stamped_statics)
     (req (validated (getValidator items_endpoint) (fresh_world Undefined))) (res (fresh_world Undefined)) \<and>
   handed_on (gate stamped_statics items_endpoint @ middlewares stamped_statics)
     (req (validated (getValidator items_endpoint) (fresh_world Undefined))) (res (fresh_world Undefined)) =
     (\<lparr>body = Undefined, query = Undefined, params = Undefined, headers = [],
        validationResult = [ValidationError ''name'' ''Invalid value'']\<rparr>,
      \<lparr>statusCode = 200, headerFields = [(''x-seen-by'', ''auth''), (''x-seen-by'', ''A'')]\<rparr>) \<and>
   dispatch working_transport stamped_statics (endpoint_handlers stamped_statics items_endpoint)
      (fresh_world Undefined) =
     \<lparr>req = \<lparr>body = Undefined, query = Undefined, params = Undefined, headers = [],
              validationResult = [ValidationError ''name'' ''Invalid value'']\<rparr>,
      res = \<lparr>statusCode = 200, headerFields = [(''x-seen-by'', ''auth''), (''x-seen-by'', ''A'')]\<rparr>,
      trace = [CallAuthMiddleware ''auth'', CallMiddleware ''A'',
        ErrorPropagated (Http (HttpException 400 ''Bad request'' (Some [ValidationError ''name'' ''Invalid value''])))]\<rparr>"
proof -
  let ?rq = "\<lparr>body = Undefined, query = Undefined, params = Undefined, headers = [],
        validationResult = [ValidationError ''name'' ''Invalid value'']\<rparr>"
  let ?rs = "\<lparr>statusCode = 200, headerFields = [(''x-seen-by'', ''auth''), (''x-seen-by'', ''A'')]\<rparr>"
  have pass: "all_advance (gate stamped_statics items_endpoint @ middlewares stamped_statics)
     (req (validated (getValidator items_endpoint) (fresh_world Undefined))) (res (fresh_world Undefined))"
    by (simp add: stamped_statics_def gate_def items_endpoint_def new_Endpoint_def
        registerAuthMiddleware_def registerMiddleware_def initial_statics_def stamp_def)
  have left: "handed_on (gate stamped_statics items_endpoint @ middlewares stamped_statics)
     (req (validated (getValidator items_endpoint) (fresh_world Undefined))) (res (fresh_world Undefined)) =
     (?rq, ?rs)"
    by (simp add: stamped_statics_def gate_def items_endpoint_def new_Endpoint_def
        registerAuthMiddleware_def registerMiddleware_def initial_statics_def stamp_def
        validated_def fresh_world_def name_required_def)
  have invalid: "getValidationErrors ?rq \<noteq> []"
    by (simp add: getValidationErrors_def)
  show ?thesis
    using pass left invalid_request_rejected_by_process [OF pass left invalid, of working_transport]
    by (simp add: getValidationErrors_def fresh_world_def stamped_statics_def gate_def
        items_endpoint_def new_Endpoint_def registerAuthMiddleware_def registerMiddleware_def
        initial_statics_def stamp_def)
qed

text \<open>
  C1, as stated, fails: on \<open>POST /items\<close> without a body the validation chain reports a
  field error, and the auth middleware and the shared middleware are both called before
  the error reaches \<open>next\<close>.
\<close>

theorem auth_and_middleware_run_on_invalid_request_counterexample:
  "name_required (req (fresh_world Undefined)) = [ValidationError ''name'' ''Invalid value''] \<and>
   trace (dispatch working_transport guarded_statics (endpoint_handlers guarded_statics items_endpoint)
      (fresh_world Undefined)) =
     [CallAuthMiddleware ''auth'', CallMiddleware ''A'',
      ErrorPropagated (Http (HttpException 400 ''Bad request'' (Some [ValidationError ''name'' ''Invalid value''])))]"
  by (simp add: guarded_statics_def items_endpoint_def new_Endpoint_def registerAuthMiddleware_def
      registerMiddleware_def initial_statics_def pass_on_def fresh_world_def name_required_def
      runAuthIfNeeded_def call_middleware_def emit_def endpoint_handlers_def setupEndpoint_def
      router_post_def dispatch_def process_def Let_def getValidationErrors_def
      BadRequestException_def)

text \<open>
  C4. A \<open>BadRequestException\<close> built from a list of field errors has status 400 and
  carries that whole list, in the same order, as its \<open>info\<close>. \<open>process\<close> builds it from
  everything \<open>validationResult(req).array()\<close> returns, so the exception it passes to
  \<open>next\<close> holds every field error stored on the request, not only the first.
\<close>

theorem bad_request_carries_all_errors:
  "status (BadRequestException errs) = 400 \<and>
   info (BadRequestException errs) = Some errs \<and>
   getValidationErrors r = validationResult r \<and>
   (getValidationErrors (req w) \<noteq> [] \<longrightarrow>
      snd (process tr ep w) =
        NextErr (Http (HttpException 400 ''Bad request'' (Some (validationResult (req w))))))"
  by (simp add: BadRequestException_def getValidationErrors_def process_def Let_def)

theorem bad_request_carries_all_errors_witness:
  "getValidationErrors (req invalid_world) \<noteq> [] \<and>
   snd (process working_transport items_endpoint invalid_world) =
     NextErr (Http (HttpException 400 ''Bad request''
       (Some [ValidationError ''name'' ''Invalid value'', ValidationError ''age'' ''Must be a number''])))"
  using bad_request_carries_all_errors
    [of "[]" "req invalid_world" invalid_world working_transport items_endpoint]
  by (simp add: getValidationErrors_def invalid_world_def fresh_world_def)

section \<open>Headers before the handler\<close>



section \<open>The auth gate\<close>

text \<open>
  C3. On a request that runs through the route of an endpoint, the auth middleware is
  called exactly when \<open>authRequired\<close> is true and an auth middleware is registered at
  that moment, and then once, by \<open>runAuthIfNeeded\<close>, on the request as the validation
  chains left it; no other handler of the route calls it. What the middleware returns is
  what happens next: the request and response are the ones it returns; when it calls
  \<open>next()\<close> the shared middleware and \<open>process\<close> follow; when it calls \<open>next(err)\<close> the
  error reaches the error handler and nothing else runs; when it does not call \<open>next\<close>
  nothing else runs. In every other case \<open>runAuthIfNeeded\<close> calls \<open>next()\<close> and nothing
  else, and the shared middleware and \<open>process\<close> follow the validation chains.
\<close>

theorem auth_gate_invoked_iff_required_and_registered:
  "filter is_auth_call (trace (dispatch tr s (endpoint_handlers ss ep) w)) =
     filter is_auth_call (trace w) @ auth_call s ep \<and>
   (auth_call s ep \<noteq> []) = (authRequired ep \<and> authMiddleware s \<noteq> None) \<and>
   (authRequired ep \<longrightarrow> authMiddleware s = Some mw \<longrightarrow>
      auth_call s ep = [CallAuthMiddleware (mw_name mw)] \<and>
      runAuthIfNeeded s ep w =
        (case mw_run mw (req w) (res w) of
           (rq, rs, n) \<Rightarrow>
             (\<lparr>req = rq, res = rs, trace = trace w @ [CallAuthMiddleware (mw_name mw)]\<rparr>, n)) \<and>
      dispatch tr s (endpoint_handlers ss ep) w =
        (case mw_run mw (req (validated (getValidator ep) w)) (res w) of
           (rq, rs, Next) \<Rightarrow>
             dispatch tr s (map Middleware (middlewares ss) @ [Process ep])
               \<lparr>req = rq, res = rs, trace = trace w @ [CallAuthMiddleware (mw_name mw)]\<rparr>
         | (rq, rs, NextErr e) \<Rightarrow>
             \<lparr>req = rq, res = rs,
              trace = trace w @ [CallAuthMiddleware (mw_name mw), ErrorPropagated e]\<rparr>
         | (rq, rs, NotCalled) \<Rightarrow>
             \<lparr>req = rq, res = rs, trace = trace w @ [CallAuthMiddleware (mw_name mw)]\<rparr>)) \<and>
   (\<not> (authRequired epx \<and> authMiddleware sx \<noteq> None) \<longrightarrow>
      auth_call sx epx = [] \<and> runAuthIfNeeded sx epx w = (w, Next) \<and>
      dispatch tr sx (endpoint_handlers ss epx) w =
        dispatch tr sx (map Middleware (middlewares ss) @ [Process epx])
          (validated (getValidator epx) w))"
proof -
  have iff: "(auth_call s ep \<noteq> []) = (authRequired ep \<and> authMiddleware s \<noteq> None)"
    unfolding auth_call_def
    by (cases "authRequired ep"; cases "authMiddleware s"; simp)
  have stage: "runAuthIfNeeded s ep w =
        (case mw_run mw (req w) (res w) of
           (rq, rs, n) \<Rightarrow>
             (\<lparr>req = rq, res = rs, trace = trace w @ [CallAuthMiddleware (mw_name mw)]\<rparr>, n))"
    if "authRequired ep" "authMiddleware s = Some mw"
  proof -
    obtain rq rs n where run: "mw_run mw (req w) (res w) = (rq, rs, n)"
      by (cases "mw_run mw (req w) (res w)") auto
    from runAuthIfNeeded_gate [OF gate_Some [OF that] run] run show ?thesis by simp
  qed
  have none: "auth_call sx epx = [] \<and> runAuthIfNeeded sx epx w = (w, Next)"
    if "\<not> (authRequired epx \<and> authMiddleware sx \<noteq> None)"
    using that unfolding auth_call_def runAuthIfNeeded_def
    by (cases "authRequired epx"; cases "authMiddleware sx"; simp)
  show ?thesis
    using iff stage none auth_calls_of_route [of tr s ss ep w]
      route_through_gate [of ep s mw tr ss w] route_without_gate [of epx sx tr ss w]
    by (simp add: auth_call_def)
qed

theorem auth_gate_invoked_iff_required_and_registered_witness:
  "authRequired items_endpoint \<and>
   authMiddleware denying_statics = Some (deny ''auth'') \<and>
   runAuthIfNeeded denying_statics items_endpoint (fresh_world (Str ''x'')) =
     (\<lparr>req = req (fresh_world (Str ''x'')),
       res = \<lparr>statusCode = 401, headerFields = []\<rparr>,
       trace = [CallAuthMiddleware ''auth'']\<rparr>, NotCalled) \<and>
   dispatch working_transport denying_statics (endpoint_handlers denying_statics items_endpoint)
     (fresh_world (Str ''x'')) =
     \<lparr>req = req (fresh_world (Str ''x'')),
      res = \<lparr>statusCode = 401, headerFields = []\<rparr>,
      trace = [CallAuthMiddleware ''auth'']\<rparr> \<and>
   \<not> (authRequired open_endpoint \<and> authMiddleware denying_statics \<noteq> None) \<and>
   runAuthIfNeeded denying_statics open_endpoint (fresh_world (Str ''x'')) =
     (fresh_world (Str ''x''), Next) \<and>
   trace (dispatch working_transport denying_statics (endpoint_handlers denying_statics open_endpoint)
     (fresh_world (Str ''x''))) =
     [CallMiddleware ''A'',
      CallHeaders \<lparr>body = Str ''x'', query = Undefined, params = Undefined, headers = []\<rparr>,
      SetStatusCode 200,
      CallExecute \<lparr>body = Str ''x'', query = Undefined, params = Undefined, headers = []\<rparr>,
      Send (Str ''x'')]"
  using auth_gate_invoked_iff_required_and_registered
    [where s = denying_statics and ep = items_endpoint and ss = denying_statics
       and tr = working_transport and w = "fresh_world (Str ''x'')"
       and mw = "deny ''auth''" and epx = open_endpoint and sx = denying_statics]
  by (simp add: items_endpoint_def open_endpoint_def new_Endpoint_def setAuthRequired_def
      denying_statics_def registerAuthMiddleware_def registerMiddleware_def initial_statics_def
      deny_def stamp_def fresh_world_def auth_call_def validated_def name_required_def
      dispatch_def call_middleware_def emit_def process_def Let_def getValidationErrors_def
      request_data_def default_headers_def setHeaders_def sendResponse_def JSON_def
      working_transport_def)

section \<open>The response dispatcher\<close>

text \<open>
  C5, as the code has it. With response type FILE, a result that is not a string makes
  \<open>sendResponse\<close> throw \<open>Error('Expected data to be a string')\<close> before \<open>res.sendFile\<close>
  is called. A result that is a string is handed to \<open>res.sendFile\<close>. When
  \<open>res.sendFile\<close> throws at once, \<open>sendResponse\<close> throws that error: no file is sent,
  \<open>fileSent\<close> is not called, and \<open>process\<close> passes the error to \<open>next\<close>. Otherwise,
  when the transfer completes, with or without an error, \<open>fileSent\<close> is called once with
  that same string, an error of the transfer is written to \<open>console.error\<close> first, nothing
  is thrown and \<open>process\<close> does not call \<open>next\<close>.
\<close>

theorem file_dispatch:
  assumes "responseType ep = FILE"
  shows "(\<not> isString other \<longrightarrow>
            sendResponse tr ep other w = Inl (Error ''Expected data to be a string'')) \<and>
         (responseType epr = FILE \<longrightarrow> isString refused \<longrightarrow> sendFile trr refused = Inl x \<longrightarrow>
            sendResponse trr epr refused wr = Inl x \<and>
            (getValidationErrors (req wr) = [] \<longrightarrow>
             headers_hook epr (request_data (req wr)) = Inr rhr \<longrightarrow>
             execute epr (request_data (req wr)) = Inr refused \<longrightarrow>
               process trr epr wr = (ready rhr wr, NextErr x) \<and>
               trace (ready rhr wr) =
                 trace wr @ CallHeaders (request_data (req wr)) # header_events rhr
                   @ [CallExecute (request_data (req wr))])) \<and>
         (isString fpath \<longrightarrow> sendFile tr fpath = Inr err \<longrightarrow>
            (\<exists>w'. sendResponse tr ep fpath w = Inr w' \<and>
               trace w' = trace w @ [SendFile fpath]
                 @ (case err of Some m \<Rightarrow> [ConsoleError (''Error sending file '' @ m)] | None \<Rightarrow> [])
                 @ [CallFileSent fpath]) \<and>
            (getValidationErrors (req w) = [] \<longrightarrow>
             headers_hook ep (request_data (req w)) = Inr rh \<longrightarrow>
             execute ep (request_data (req w)) = Inr fpath \<longrightarrow>
               snd (process tr ep w) = NotCalled \<and>
               trace (fst (process tr ep w)) =
                 trace w @ CallHeaders (request_data (req w)) # header_events rh
                   @ [CallExecute (request_data (req w)), SendFile fpath]
                   @ (case err of Some m \<Rightarrow> [ConsoleError (''Error sending file '' @ m)] | None \<Rightarrow> [])
                   @ [CallFileSent fpath]))"
proof -
  have not_string: "sendResponse tr ep other w = Inl (Error ''Expected data to be a string'')"
    if "\<not> isString other"
    using assms that by (simp add: sendResponse_def FILE_def JSON_def)
  have refused: "sendResponse trr epr refused v = Inl x"
    if "responseType epr = FILE" "isString refused" "sendFile trr refused = Inl x" for v
    using that by (simp add: sendResponse_def FILE_def JSON_def)
  have sent: "sendResponse tr ep fpath v =
      Inr (v\<lparr>trace := trace v @ [SendFile fpath]
                 @ (case err of Some m \<Rightarrow> [ConsoleError (''Error sending file '' @ m)] | None \<Rightarrow> [])
                 @ [CallFileSent fpath]\<rparr>)"
    if "isString fpath" "sendFile tr fpath = Inr err" for v
    using assms that
    by (cases err) (simp_all add: sendResponse_def FILE_def JSON_def Let_def emit_def)
  have refused_process: "process trr epr wr = (ready rhr wr, NextErr x)"
    if "responseType epr = FILE" "isString refused" "sendFile trr refused = Inl x"
      "getValidationErrors (req wr) = []"
      "headers_hook epr (request_data (req wr)) = Inr rhr"
      "execute epr (request_data (req wr)) = Inr refused"
    using process_send_throws [OF that(4,5,6) refused [OF that(1,2,3)]] .
  have sent_process: "snd (process tr ep w) = NotCalled \<and>
               trace (fst (process tr ep w)) =
                 trace w @ CallHeaders (request_data (req w)) # header_events rh
                   @ [CallExecute (request_data (req w)), SendFile fpath]
                   @ (case err of Some m \<Rightarrow> [ConsoleError (''Error sending file '' @ m)] | None \<Rightarrow> [])
                   @ [CallFileSent fpath]"
    if "isString fpath" "sendFile tr fpath = Inr err" "getValidationErrors (req w) = []"
      "headers_hook ep (request_data (req w)) = Inr rh" "execute ep (request_data (req w)) = Inr fpath"
    using process_sent [OF that(3,4,5) sent [OF that(1,2)]] by simp
  show ?thesis
    using not_string refused [of w] refused [of wr] sent [of w] refused_process sent_process by simp
qed

theorem file_dispatch_witness:
  "responseType download_endpoint = FILE \<and> \<not> isString (Num 5) \<and>
   sendResponse broken_transport download_endpoint (Num 5) (fresh_world Undefined) =
     Inl (Error ''Expected data to be a string'') \<and>
   responseType report_endpoint = FILE \<and> isString (Str ''report.pdf'') \<and>
   sendFile strict_transport (Str ''report.pdf'') =
     Inl (Error ''path must be absolute or specify root to res.sendFile'') \<and>
   execute report_endpoint (request_data (req (fresh_world Undefined))) = Inr (Str ''report.pdf'') \<and>
   snd (process strict_transport report_endpoint (fresh_world Undefined)) =
     NextErr (Error ''path must be absolute or specify root to res.sendFile'') \<and>
   isString (Str ''/tmp/report.pdf'') \<and>
   sendFile broken_transport (Str ''/tmp/report.pdf'') = Inr (Some ''ECONNRESET'') \<and>
   getValidationErrors (req (fresh_world Undefined)) = [] \<and>
   execute download_endpoint (request_data (req (fresh_world Undefined))) = Inr (Str ''/tmp/report.pdf'') \<and>
   process broken_transport download_endpoint (fresh_world Undefined) =
     (\<lparr>req = req (fresh_world Undefined), res = \<lparr>statusCode = 200, headerFields = []\<rparr>,
       trace =
        [CallHeaders \<lparr>body = Undefined, query = Undefined, params = Undefined, headers = []\<rparr>,
         SetStatusCode 200,
         CallExecute \<lparr>body = Undefined, query = Undefined, params = Undefined, headers = []\<rparr>,
         SendFile (Str ''/tmp/report.pdf''), ConsoleError ''Error sending file ECONNRESET'',
         CallFileSent (Str ''/tmp/report.pdf'')]\<rparr>, NotCalled)"
proof -
  have kind: "responseType download_endpoint = FILE"
    by (simp add: download_endpoint_def setResponseType_def new_Endpoint_def)
  show ?thesis
    using kind
      file_dispatch [OF kind, where other = "Num 5" and tr = broken_transport
        and w = "fresh_world Undefined" and fpath = "Str ''/tmp/report.pdf''"
        and err = "Some ''ECONNRESET''" and refused = "Str ''report.pdf''"
        and rh = "\<lparr>response_headers = [], response_status = 200\<rparr>"
        and epr = report_endpoint and trr = strict_transport and wr = "fresh_world Undefined"
        and rhr = "\<lparr>response_headers = [], response_status = 200\<rparr>"
        and x = "Error ''path must be absolute or specify root to res.sendFile''"]
    by (simp add: fresh_world_def download_endpoint_def report_endpoint_def setResponseType_def
        new_Endpoint_def broken_transport_def strict_transport_def process_def Let_def
        getValidationErrors_def request_data_def default_headers_def setHeaders_def emit_def
        sendResponse_def FILE_def JSON_def)
qed

text \<open>
  C5, as stated, fails: \<open>GET /report\<close> returns the string \<open>report.pdf\<close>, a relative
  path, on which \<open>res.sendFile\<close> throws at once. No file is sent, \<open>fileSent\<close> is never
  called, and the error goes to \<open>next\<close>.
\<close>

theorem relative_path_not_sent_counterexample:
  "responseType report_endpoint = FILE \<and> isString (Str ''report.pdf'') \<and>
   execute report_endpoint (request_data (req (fresh_world Undefined))) = Inr (Str ''report.pdf'') \<and>
   process strict_transport report_endpoint (fresh_world Undefined) =
     (\<lparr>req = req (fresh_world Undefined), res = \<lparr>statusCode = 200, headerFields = []\<rparr>,
       trace =
        [CallHeaders \<lparr>body = Undefined, query = Undefined, params = Undefined, headers = []\<rparr>,
         SetStatusCode 200,
         CallExecute \<lparr>body = Undefined, query = Undefined, params = Undefined, headers = []\<rparr>]\<rparr>,
      NextErr (Error ''path must be absolute or specify root to res.sendFile''))"
  by (simp add: fresh_world_def report_endpoint_def setResponseType_def new_Endpoint_def
      strict_transport_def process_def Let_def getValidationErrors_def request_data_def
      default_headers_def setHeaders_def emit_def sendResponse_def FILE_def JSON_def)

text \<open>
  C6. With response type STREAM, a result that is not a readable stream makes
  \<open>sendResponse\<close> throw \<open>Error('Expected data to be a readable stream')\<close>. In
  \<open>process\<close> the error goes to \<open>next\<close>, and the request has seen the header hook, the
  status and header writes and the call of \<open>execute\<close>, but no write of the body.
\<close>

theorem stream_dispatch_rejects_non_stream:
  assumes "responseType ep = STREAM" and "\<not> isReadableStream data"
  shows "sendResponse tr ep data w = Inl (Error ''Expected data to be a readable stream'') \<and>
         (getValidationErrors (req w) = [] \<longrightarrow>
          headers_hook ep (request_data (req w)) = Inr rh \<longrightarrow>
          execute ep (request_data (req w)) = Inr data \<longrightarrow>
            snd (process tr ep w) = NextErr (Error ''Expected data to be a readable stream'') \<and>
            trace (fst (process tr ep w)) =
              trace w @ CallHeaders (request_data (req w)) # header_events rh
                @ [CallExecute (request_data (req w))] \<and>
            filter is_terminal_write (trace (fst (process tr ep w))) =
              filter is_terminal_write (trace w))"
proof -
  have throws: "sendResponse tr ep data w' = Inl (Error ''Expected data to be a readable stream'')"
    for w'
    using assms by (auto simp: sendResponse_def FILE_def JSON_def STREAM_def)
  show ?thesis
    using throws process_send_throws [where w = w and ep = ep and rh = rh and tr = tr and result = data]
    by simp
qed

theorem stream_dispatch_rejects_non_stream_witness:
  "responseType export_endpoint = STREAM \<and> \<not> isReadableStream (Num 5) \<and>
   getValidationErrors (req (fresh_world Undefined)) = [] \<and>
   execute export_endpoint (request_data (req (fresh_world Undefined))) = Inr (Num 5) \<and>
   snd (process working_transport export_endpoint (fresh_world Undefined)) =
     NextErr (Error ''Expected data to be a readable stream'') \<and>
   filter is_terminal_write (trace (fst (process working_transport export_endpoint (fresh_world Undefined)))) = []"
proof -
  have kind: "responseType export_endpoint = STREAM"
    by (simp add: export_endpoint_def setResponseType_def new_Endpoint_def)
  have no_stream: "\<not> isReadableStream (Num 5)" by simp
  have hook: "headers_hook export_endpoint (request_data (req (fresh_world Undefined))) =
      Inr \<lparr>response_headers = [], response_status = 200\<rparr>"
    by (simp add: export_endpoint_def setResponseType_def new_Endpoint_def default_headers_def)
  have exec: "execute export_endpoint (request_data (req (fresh_world Undefined))) = Inr (Num 5)"
    by (simp add: export_endpoint_def setResponseType_def new_Endpoint_def)
  have valid: "getValidationErrors (req (fresh_world Undefined)) = []"
    by (simp add: getValidationErrors_def fresh_world_def)
  show ?thesis
    using kind no_stream hook exec valid
      stream_dispatch_rejects_non_stream [where ep = export_endpoint and data = "Num 5"
        and tr = working_transport and w = "fresh_world Undefined"
        and rh = "\<lparr>response_headers = [], response_status = 200\<rparr>"]
    by (simp add: fresh_world_def)
qed

text \<open>
  C7. With a response type that is none of JSON, FILE and STREAM, \<open>sendResponse\<close> throws
  an \<open>Error\<close> whose message is the response type followed by \<open>is not implemented\<close>. In
  \<open>process\<close> the error goes to \<open>next\<close> and no body is written.
\<close>

theorem unknown_response_type_not_implemented:
  assumes "responseType ep \<noteq> JSON" and "responseType ep \<noteq> FILE" and "responseType ep \<noteq> STREAM"
  shows "sendResponse tr ep data w = Inl (Error (responseType ep @ '' is not implemented'')) \<and>
         (getValidationErrors (req w) = [] \<longrightarrow>
          headers_hook ep (request_data (req w)) = Inr rh \<longrightarrow>
          execute ep (request_data (req w)) = Inr data \<longrightarrow>
            snd (process tr ep w) = NextErr (Error (responseType ep @ '' is not implemented'')) \<and>
            filter is_terminal_write (trace (fst (process tr ep w))) =
              filter is_terminal_write (trace w))"
proof -
  have throws: "sendResponse tr ep data w' = Inl (Error (responseType ep @ '' is not implemented''))"
    for w'
    using assms by (simp add: sendResponse_def)
  show ?thesis
    using throws process_send_throws [where w = w and ep = ep and rh = rh and tr = tr and result = data]
    by simp
qed

theorem unknown_response_type_not_implemented_witness:
  "responseType feed_endpoint \<noteq> JSON \<and> responseType feed_endpoint \<noteq> FILE \<and>
   responseType feed_endpoint \<noteq> STREAM \<and>
   getValidationErrors (req (fresh_world Undefined)) = [] \<and>
   execute feed_endpoint (request_data (req (fresh_world Undefined))) = Inr (Obj ''feed'') \<and>
   sendResponse working_transport feed_endpoint (Obj ''feed'') (fresh_world Undefined) =
     Inl (Error ''xml is not implemented'') \<and>
   snd (process working_transport feed_endpoint (fresh_world Undefined)) =
     NextErr (Error ''xml is not implemented'') \<and>
   filter is_terminal_write (trace (fst (process working_transport feed_endpoint (fresh_world Undefined)))) = []"
proof -
  have kind: "responseType feed_endpoint \<noteq> JSON" "responseType feed_endpoint \<noteq> FILE"
    "responseType feed_endpoint \<noteq> STREAM"
    by (simp_all add: feed_endpoint_def setResponseType_def new_Endpoint_def JSON_def FILE_def STREAM_def)
  have hook: "headers_hook feed_endpoint (request_data (req (fresh_world Undefined))) =
      Inr \<lparr>response_headers = [], response_status = 200\<rparr>"
    by (simp add: feed_endpoint_def setResponseType_def new_Endpoint_def default_headers_def)
  have exec: "execute feed_endpoint (request_data (req (fresh_world Undefined))) = Inr (Obj ''feed'')"
    by (simp add: feed_endpoint_def setResponseType_def new_Endpoint_def)
  have valid: "getValidationErrors (req (fresh_world Undefined)) = []"
    by (simp add: getValidationErrors_def fresh_world_def)
  have name: "responseType feed_endpoint = ''xml''"
    by (simp add: feed_endpoint_def setResponseType_def)
  show ?thesis
    using kind hook exec valid name
      unknown_response_type_not_implemented [where ep = feed_endpoint and data = "Obj ''feed''"
        and tr = working_transport and w = "fresh_world Undefined"
        and rh = "\<lparr>response_headers = [], response_status = 200\<rparr>"]
    by (simp add: fresh_world_def)
qed

section \<open>The shared middleware\<close>




text \<open>
  C10. The route of an endpoint holds the shared middleware that were registered when
  \<open>setupEndpoint\<close> ran: registering another one afterwards changes nothing for a request
  to that endpoint, and the late middleware is never called. \<open>runAuthIfNeeded\<close> reads
  \<open>Endpoint.authMiddleware\<close> when the request arrives: an auth middleware registered after
  \<open>setupEndpoint\<close> is the one that is called, the request and response are the ones it
  returns, and the route goes on, ends in the error handler or stops as it calls
  \<open>next()\<close>, calls \<open>next(err)\<close> or does not call \<open>next\<close>. Of two registrations the
  later one stays.
\<close>

theorem middlewares_fixed_at_setup_auth_read_per_request:
  "endpoint_handlers ss ep =
     map ValidatorHandler (getValidator ep) @ RunAuthIfNeeded ep # map Middleware (middlewares ss) @ [Process ep] \<and>
   dispatch tr (registerMiddleware late s) (endpoint_handlers ss ep) w =
     dispatch tr s (endpoint_handlers ss ep) w \<and>
   (mw_name late \<notin> mw_name ` set (middlewares ss) \<longrightarrow>
    CallMiddleware (mw_name late) \<notin> set (trace w) \<longrightarrow>
      CallMiddleware (mw_name late) \<notin>
        set (trace (dispatch tr (registerMiddleware late s) (endpoint_handlers ss ep) w))) \<and>
   (authRequired ep \<longrightarrow>
      filter is_auth_call (trace (dispatch tr (registerAuthMiddleware a s) (endpoint_handlers ss ep) w)) =
        filter is_auth_call (trace w) @ [CallAuthMiddleware (mw_name a)] \<and>
      runAuthIfNeeded (registerAuthMiddleware a s) ep w =
        (case mw_run a (req w) (res w) of
           (rq, rs, n) \<Rightarrow>
             (\<lparr>req = rq, res = rs, trace = trace w @ [CallAuthMiddleware (mw_name a)]\<rparr>, n)) \<and>
      dispatch tr (registerAuthMiddleware a s) (endpoint_handlers ss ep) w =
        (case mw_run a (req (validated (getValidator ep) w)) (res w) of
           (rq, rs, Next) \<Rightarrow>
             dispatch tr (registerAuthMiddleware a s) (map Middleware (middlewares ss) @ [Process ep])
               \<lparr>req = rq, res = rs, trace = trace w @ [CallAuthMiddleware (mw_name a)]\<rparr>
         | (rq, rs, NextErr e) \<Rightarrow>
             \<lparr>req = rq, res = rs,
              trace = trace w @ [CallAuthMiddleware (mw_name a), ErrorPropagated e]\<rparr>
         | (rq, rs, NotCalled) \<Rightarrow>
             \<lparr>req = rq, res = rs, trace = trace w @ [CallAuthMiddleware (mw_name a)]\<rparr>)) \<and>
   authMiddleware (registerAuthMiddleware b (registerAuthMiddleware a s)) = Some b"
proof -
  have same: "dispatch tr (registerMiddleware late s) (endpoint_handlers ss ep) w =
      dispatch tr s (endpoint_handlers ss ep) w"
    by (simp add: registerMiddleware_def dispatch_statics)
  have never: "CallMiddleware (mw_name late) \<notin>
        set (trace (dispatch tr (registerMiddleware late s) (endpoint_handlers ss ep) w))"
    if fresh: "mw_name late \<notin> mw_name ` set (middlewares ss)"
      and before: "CallMiddleware (mw_name late) \<notin> set (trace w)"
  proof
    let ?t = "trace (dispatch tr s (endpoint_handlers ss ep) w)"
    assume "CallMiddleware (mw_name late) \<in>
        set (trace (dispatch tr (registerMiddleware late s) (endpoint_handlers ss ep) w))"
    then have "CallMiddleware (mw_name late) \<in> set (filter is_middleware_call ?t)"
      using same by simp
    moreover from middleware_calls_of_route [of tr s ss ep w] obtain k where
      "filter is_middleware_call ?t =
         filter is_middleware_call (trace w) @ map (\<lambda>mw. CallMiddleware (mw_name mw)) (take k (middlewares ss))"
      by blast
    ultimately have "CallMiddleware (mw_name late) \<in> set (trace w) \<or>
        CallMiddleware (mw_name late) \<in> (\<lambda>mw. CallMiddleware (mw_name mw)) ` set (take k (middlewares ss))"
      by auto
    with before obtain m where "m \<in> set (take k (middlewares ss))" "mw_name m = mw_name late"
      by auto
    with fresh show False
      by (metis imageI in_set_takeD)
  qed
  have registered: "authMiddleware (registerAuthMiddleware a s) = Some a"
    by (simp add: registerAuthMiddleware_def)
  have auth: "filter is_auth_call (trace (dispatch tr (registerAuthMiddleware a s) (endpoint_handlers ss ep) w)) =
        filter is_auth_call (trace w) @ [CallAuthMiddleware (mw_name a)]"
    if "authRequired ep"
    using that auth_calls_of_route [of tr "registerAuthMiddleware a s" ss ep w]
    by (simp add: auth_call_def registerAuthMiddleware_def)
  have stage: "runAuthIfNeeded (registerAuthMiddleware a s) ep w =
        (case mw_run a (req w) (res w) of
           (rq, rs, n) \<Rightarrow>
             (\<lparr>req = rq, res = rs, trace = trace w @ [CallAuthMiddleware (mw_name a)]\<rparr>, n))"
    if "authRequired ep"
  proof -
    obtain rq rs n where run: "mw_run a (req w) (res w) = (rq, rs, n)"
      by (cases "mw_run a (req w) (res w)") auto
    from runAuthIfNeeded_gate [OF gate_Some [OF that registered] run] run show ?thesis by simp
  qed
  show ?thesis
    using same never auth stage
      route_through_gate [of ep "registerAuthMiddleware a s" a tr ss w, OF _ registered]
    by (simp add: endpoint_handlers_eq registerAuthMiddleware_def)
qed

theorem middlewares_fixed_at_setup_auth_read_per_request_witness:
  "mw_name (stamp ''late'') \<notin> mw_name ` set (middlewares (registerMiddleware (stamp ''A'') initial_statics)) \<and>
   CallMiddleware (mw_name (stamp ''late'')) \<notin> set (trace (fresh_world (Str ''x''))) \<and>
   authRequired items_endpoint \<and>
   dispatch working_transport
      (registerAuthMiddleware (stamp ''auth'')
         (registerMiddleware (stamp ''late'') (registerMiddleware (stamp ''A'') initial_statics)))
      (endpoint_handlers (registerMiddleware (stamp ''A'') initial_statics) items_endpoint)
      (fresh_world (Str ''x'')) =
   \<lparr>req = req (fresh_world (Str ''x'')),
    res = \<lparr>statusCode = 200, headerFields = [(''x-seen-by'', ''auth''), (''x-seen-by'', ''A'')]\<rparr>,
    trace =
     [CallAuthMiddleware ''auth'', CallMiddleware ''A'',
      CallHeaders \<lparr>body = Str ''x'', query = Undefined, params = Undefined, headers = []\<rparr>,
      SetStatusCode 200,
      CallExecute \<lparr>body = Str ''x'', query = Undefined, params = Undefined, headers = []\<rparr>,
      Send (Str ''x'')]\<rparr> \<and>
   dispatch working_transport
      (registerAuthMiddleware (deny ''auth'') (registerMiddleware (stamp ''A'') initial_statics))
      (endpoint_handlers (registerMiddleware (stamp ''A'') initial_statics) items_endpoint)
      (fresh_world (Str ''x'')) =
   \<lparr>req = req (fresh_world (Str ''x'')),
    res = \<lparr>statusCode = 401, headerFields = []\<rparr>,
    trace = [CallAuthMiddleware ''auth'']\<rparr>"
  using middlewares_fixed_at_setup_auth_read_per_request
    [where ss = "registerMiddleware (stamp ''A'') initial_statics" and ep = items_endpoint
       and tr = working_transport and late = "stamp ''late''"
       and s = "registerMiddleware (stamp ''A'') initial_statics"
       and w = "fresh_world (Str ''x'')" and a = "deny ''auth''" and b = "deny ''auth''"]
  by (simp add: items_endpoint_def new_Endpoint_def registerAuthMiddleware_def
      registerMiddleware_def initial_statics_def stamp_def deny_def fresh_world_def
      name_required_def runAuthIfNeeded_def endpoint_handlers_def setupEndpoint_def
      router_post_def dispatch_def call_middleware_def emit_def process_def Let_def
      getValidationErrors_def request_data_def default_headers_def setHeaders_def
      sendResponse_def JSON_def working_transport_def validated_def)

section \<open>One error, one response\<close>

text \<open>
  C9, as the code has it. Over the whole route of an endpoint at most one call writes the
  body and at most one error reaches the error handler; when one does, it is the last
  thing that happens and no call has written the body. A failure at a handler the request
  reaches ends the run with exactly that: a failed validation, a header hook or an
  \<open>execute\<close> that throws, a \<open>sendResponse\<close> that throws, and an error a shared middleware
  or the auth middleware passes to \<open>next\<close>. When the relay of a stream fails, the response
  has been piped once; the pipeline callback writes to \<open>console.error\<close> and throws
  outside the \<open>try\<close> of \<open>process\<close>, so nothing more is written and \<open>next\<close> is not
  called.
\<close>

theorem one_error_forwarded_one_terminal_write:
  "(\<exists>new. trace (dispatch tr s (endpoint_handlers ss ep) w) = trace w @ new \<and>
      length (filter is_terminal_write new) \<le> 1 \<and>
      length (filter is_propagated new) \<le> 1 \<and>
      (\<forall>e. ErrorPropagated e \<in> set new \<longrightarrow>
         (\<exists>pre. new = pre @ [ErrorPropagated e] \<and> filter is_propagated pre = [] \<and>
            filter is_terminal_write pre = []))) \<and>
   (run_handlers tr s (before_process ss epa) wa = (va, Next) \<longrightarrow>
    getValidationErrors (req va) \<noteq> [] \<longrightarrow>
      dispatch tr s (endpoint_handlers ss epa) wa =
        emit (ErrorPropagated (Http (BadRequestException (getValidationErrors (req va))))) va) \<and>
   (run_handlers tr s (before_process ss epb) wb = (vb, Next) \<longrightarrow>
    getValidationErrors (req vb) = [] \<longrightarrow>
    headers_hook epb (request_data (req vb)) = Inl xb \<longrightarrow>
      dispatch tr s (endpoint_handlers ss epb) wb =
        emit (ErrorPropagated xb) (emit (CallHeaders (request_data (req vb))) vb)) \<and>
   (run_handlers tr s (before_process ss epc) wc = (vc, Next) \<longrightarrow>
    getValidationErrors (req vc) = [] \<longrightarrow>
    headers_hook epc (request_data (req vc)) = Inr rhc \<longrightarrow>
    execute epc (request_data (req vc)) = Inl xc \<longrightarrow>
      dispatch tr s (endpoint_handlers ss epc) wc = emit (ErrorPropagated xc) (ready rhc vc)) \<and>
   (run_handlers tr s (before_process ss epd) wd = (vd, Next) \<longrightarrow>
    getValidationErrors (req vd) = [] \<longrightarrow>
    headers_hook epd (request_data (req vd)) = Inr rhd \<longrightarrow>
    execute epd (request_data (req vd)) = Inr result \<longrightarrow>
    sendResponse tr epd result (ready rhd vd) = Inl xd \<longrightarrow>
      dispatch tr s (endpoint_handlers ss epd) wd = emit (ErrorPropagated xd) (ready rhd vd)) \<and>
   (middlewares ssm = pre @ m # post \<longrightarrow>
    run_handlers tr sm
      (map ValidatorHandler (getValidator epm) @ RunAuthIfNeeded epm # map Middleware pre) wm =
      (vm, Next) \<longrightarrow>
    mw_run m (req vm) (res vm) = (rqm, rsm, NextErr xm) \<longrightarrow>
      dispatch tr sm (endpoint_handlers ssm epm) wm =
        \<lparr>req = rqm, res = rsm,
         trace = trace vm @ [CallMiddleware (mw_name m), ErrorPropagated xm]\<rparr>) \<and>
   (authRequired epg \<longrightarrow> authMiddleware sg = Some mwg \<longrightarrow>
    mw_run mwg (req (validated (getValidator epg) wg)) (res wg) = (rqg, rsg, NextErr xg) \<longrightarrow>
      dispatch tr sg (endpoint_handlers ssg epg) wg =
        \<lparr>req = rqg, res = rsg,
         trace = trace wg @ [CallAuthMiddleware (mw_name mwg), ErrorPropagated xg]\<rparr>) \<and>
   (responseType epr = STREAM \<longrightarrow> isReadableStream stream \<longrightarrow> pipeline trr stream = Some cause \<longrightarrow>
    getValidationErrors (req vr) = [] \<longrightarrow>
    headers_hook epr (request_data (req vr)) = Inr rhr \<longrightarrow>
    execute epr (request_data (req vr)) = Inr stream \<longrightarrow>
      snd (process trr epr vr) = NotCalled \<and>
      trace (fst (process trr epr vr)) =
        trace (ready rhr vr) @
          [Pipeline stream, PipeToResponse,
           ConsoleError ''Error writing stream in image endpoint'', ConsoleError cause,
           Uncaught (Error ''Error writing stream in image endpoint'')])"
proof -
  have validation: "dispatch tr s (endpoint_handlers ss epa) wa =
        emit (ErrorPropagated (Http (BadRequestException (getValidationErrors (req va))))) va"
    if "run_handlers tr s (before_process ss epa) wa = (va, Next)"
      "getValidationErrors (req va) \<noteq> []"
    using dispatch_process_fails [OF that(1) process_invalid [OF that(2)]] .
  have hook: "dispatch tr s (endpoint_handlers ss epb) wb =
        emit (ErrorPropagated xb) (emit (CallHeaders (request_data (req vb))) vb)"
    if "run_handlers tr s (before_process ss epb) wb = (vb, Next)"
      "getValidationErrors (req vb) = []" "headers_hook epb (request_data (req vb)) = Inl xb"
    using dispatch_process_fails [OF that(1) process_hook_throws [OF that(2,3)]] .
  have handler: "dispatch tr s (endpoint_handlers ss epc) wc = emit (ErrorPropagated xc) (ready rhc vc)"
    if "run_handlers tr s (before_process ss epc) wc = (vc, Next)"
      "getValidationErrors (req vc) = []" "headers_hook epc (request_data (req vc)) = Inr rhc"
      "execute epc (request_data (req vc)) = Inl xc"
    using dispatch_process_fails [OF that(1) process_execute_throws [OF that(2,3,4)]] .
  have dispatcher: "dispatch tr s (endpoint_handlers ss epd) wd = emit (ErrorPropagated xd) (ready rhd vd)"
    if "run_handlers tr s (before_process ss epd) wd = (vd, Next)"
      "getValidationErrors (req vd) = []" "headers_hook epd (request_data (req vd)) = Inr rhd"
      "execute epd (request_data (req vd)) = Inr result"
      "sendResponse tr epd result (ready rhd vd) = Inl xd"
    using dispatch_process_fails [OF that(1) process_send_throws [OF that(2,3,4,5)]] .
  have middleware: "dispatch tr sm (endpoint_handlers ssm epm) wm =
        \<lparr>req = rqm, res = rsm,
         trace = trace vm @ [CallMiddleware (mw_name m), ErrorPropagated xm]\<rparr>"
    if "middlewares ssm = pre @ m # post"
      "run_handlers tr sm
        (map ValidatorHandler (getValidator epm) @ RunAuthIfNeeded epm # map Middleware pre) wm =
        (vm, Next)"
      "mw_run m (req vm) (res vm) = (rqm, rsm, NextErr xm)"
    using dispatch_middleware_fails [OF that] .
  have auth: "dispatch tr sg (endpoint_handlers ssg epg) wg =
        \<lparr>req = rqg, res = rsg,
         trace = trace wg @ [CallAuthMiddleware (mw_name mwg), ErrorPropagated xg]\<rparr>"
    if "authRequired epg" "authMiddleware sg = Some mwg"
      "mw_run mwg (req (validated (getValidator epg) wg)) (res wg) = (rqg, rsg, NextErr xg)"
    using route_through_gate [OF that(1,2), of tr ssg wg] that(3) by simp
  have relay: "snd (process trr epr vr) = NotCalled \<and>
      trace (fst (process trr epr vr)) =
        trace (ready rhr vr) @
          [Pipeline stream, PipeToResponse,
           ConsoleError ''Error writing stream in image endpoint'', ConsoleError cause,
           Uncaught (Error ''Error writing stream in image endpoint'')]"
    if "responseType epr = STREAM" "isReadableStream stream" "pipeline trr stream = Some cause"
      "getValidationErrors (req vr) = []" "headers_hook epr (request_data (req vr)) = Inr rhr"
      "execute epr (request_data (req vr)) = Inr stream"
  proof -
    let ?v = "ready rhr vr"
    have "sendResponse trr epr stream ?v =
        Inr (?v\<lparr>trace := trace ?v @
          [Pipeline stream, PipeToResponse,
           ConsoleError ''Error writing stream in image endpoint'', ConsoleError cause,
           Uncaught (Error ''Error writing stream in image endpoint'')]\<rparr>)"
      using that(1,2,3) by (simp add: sendResponse_def STREAM_def JSON_def FILE_def Let_def emit_def)
    from process_sent [OF that(4,5,6) this] show ?thesis by simp
  qed
  from dispatch_route_trace [of tr s ss ep w] validation hook handler dispatcher middleware auth relay
  show ?thesis by blast
qed

theorem one_error_forwarded_one_terminal_write_witness:
  "run_handlers working_transport initial_statics (before_process initial_statics items_endpoint)
     (fresh_world Undefined) = (((fresh_world Undefined)\<lparr>req := (req (fresh_world Undefined))\<lparr>validationResult := [ValidationError ''name'' ''Invalid value'']\<rparr>\<rparr>), Next) \<and>
   getValidationErrors (req ((fresh_world Undefined)\<lparr>req := (req (fresh_world Undefined))\<lparr>validationResult := [ValidationError ''name'' ''Invalid value'']\<rparr>\<rparr>)) \<noteq> [] \<and>
   trace (dispatch working_transport initial_statics (endpoint_handlers initial_statics items_endpoint)
     (fresh_world Undefined)) =
     [ErrorPropagated (Http (HttpException 400 ''Bad request'' (Some [ValidationError ''name'' ''Invalid value''])))] \<and>
   run_handlers working_transport initial_statics (before_process initial_statics no_headers_endpoint)
     (fresh_world (Str ''x'')) = ((fresh_world (Str ''x'')), Next) \<and>
   headers_hook no_headers_endpoint (request_data (req (fresh_world (Str ''x'')))) = Inl (Error ''no headers'') \<and>
   trace (dispatch working_transport initial_statics (endpoint_handlers initial_statics no_headers_endpoint)
     (fresh_world (Str ''x''))) =
     [CallHeaders \<lparr>body = Str ''x'', query = Undefined, params = Undefined, headers = []\<rparr>, ErrorPropagated (Error ''no headers'')] \<and>
   run_handlers working_transport initial_statics (before_process initial_statics failing_endpoint)
     (fresh_world (Str ''x'')) = ((fresh_world (Str ''x'')), Next) \<and>
   execute failing_endpoint (request_data (req (fresh_world (Str ''x'')))) = Inl (Error ''boom'') \<and>
   trace (dispatch working_transport initial_statics (endpoint_handlers initial_statics failing_endpoint)
     (fresh_world (Str ''x''))) =
     [CallHeaders \<lparr>body = Str ''x'', query = Undefined, params = Undefined, headers = []\<rparr>, SetStatusCode 200, CallExecute \<lparr>body = Str ''x'', query = Undefined, params = Undefined, headers = []\<rparr>, ErrorPropagated (Error ''boom'')] \<and>
   run_handlers working_transport initial_statics (before_process initial_statics export_endpoint)
     (fresh_world (Str ''x'')) = ((fresh_world (Str ''x'')), Next) \<and>
   execute export_endpoint (request_data (req (fresh_world (Str ''x'')))) = Inr (Num 5) \<and>
   sendResponse working_transport export_endpoint (Num 5) (ready \<lparr>response_headers = [], response_status = 200\<rparr> (fresh_world (Str ''x''))) =
     Inl (Error ''Expected data to be a readable stream'') \<and>
   trace (dispatch working_transport initial_statics (endpoint_handlers initial_statics export_endpoint)
     (fresh_world (Str ''x''))) =
     [CallHeaders \<lparr>body = Str ''x'', query = Undefined, params = Undefined, headers = []\<rparr>, SetStatusCode 200, CallExecute \<lparr>body = Str ''x'', query = Undefined, params = Undefined, headers = []\<rparr>,
      ErrorPropagated (Error ''Expected data to be a readable stream'')] \<and>
   middlewares halting_statics = [stamp ''A''] @ reject ''R'' # [stamp ''C''] \<and>
   run_handlers working_transport halting_statics
     (map ValidatorHandler (getValidator open_endpoint) @ RunAuthIfNeeded open_endpoint
        # map Middleware [stamp ''A'']) (fresh_world (Str ''x'')) =
     (\<lparr>req = req (fresh_world (Str ''x'')), res = \<lparr>statusCode = 200, headerFields = [(''x-seen-by'', ''A'')]\<rparr>, trace = [CallMiddleware ''A'']\<rparr>, Next) \<and>
   dispatch working_transport halting_statics (endpoint_handlers halting_statics open_endpoint) (fresh_world (Str ''x'')) =
     \<lparr>req = req (fresh_world (Str ''x'')),
      res = \<lparr>statusCode = 200, headerFields = [(''x-seen-by'', ''A'')]\<rparr>,
      trace = [CallMiddleware ''A'', CallMiddleware ''R'', ErrorPropagated (Error ''rejected'')]\<rparr> \<and>
   authRequired items_endpoint \<and> authMiddleware refusing_statics = Some (reject ''auth'') \<and>
   dispatch working_transport refusing_statics (endpoint_handlers refusing_statics items_endpoint) (fresh_world (Str ''x'')) =
     \<lparr>req = req (fresh_world (Str ''x'')), res = res (fresh_world (Str ''x'')),
      trace = [CallAuthMiddleware ''auth'', ErrorPropagated (Error ''rejected'')]\<rparr> \<and>
   responseType video_endpoint = STREAM \<and> isReadableStream (ReadableStream ''video'') \<and>
   pipeline broken_transport (ReadableStream ''video'') = Some ''EPIPE'' \<and>
   execute video_endpoint (request_data (req (fresh_world (Str ''x'')))) = Inr (ReadableStream ''video'') \<and>
   snd (process broken_transport video_endpoint (fresh_world (Str ''x''))) = NotCalled \<and>
   trace (fst (process broken_transport video_endpoint (fresh_world (Str ''x'')))) =
     [CallHeaders \<lparr>body = Str ''x'', query = Undefined, params = Undefined, headers = []\<rparr>, SetStatusCode 200, CallExecute \<lparr>body = Str ''x'', query = Undefined, params = Undefined, headers = []\<rparr>,
      Pipeline (ReadableStream ''video''), PipeToResponse,
      ConsoleError ''Error writing stream in image endpoint'', ConsoleError ''EPIPE'',
      Uncaught (Error ''Error writing stream in image endpoint'')]"
  using one_error_forwarded_one_terminal_write
    [where tr = working_transport and s = initial_statics and ss = initial_statics
       and ep = failing_endpoint and w = "fresh_world (Str ''x'')"
       and epa = items_endpoint and wa = "fresh_world Undefined"
       and va = "((fresh_world Undefined)\<lparr>req := (req (fresh_world Undefined))\<lparr>validationResult := [ValidationError ''name'' ''Invalid value'']\<rparr>\<rparr>)"
       and epb = no_headers_endpoint and wb = "fresh_world (Str ''x'')" and vb = "fresh_world (Str ''x'')"
       and xb = "Error ''no headers''"
       and epc = failing_endpoint and wc = "fresh_world (Str ''x'')" and vc = "fresh_world (Str ''x'')"
       and rhc = "\<lparr>response_headers = [], response_status = 200\<rparr>" and xc = "Error ''boom''"
       and epd = export_endpoint and wd = "fresh_world (Str ''x'')" and vd = "fresh_world (Str ''x'')"
       and rhd = "\<lparr>response_headers = [], response_status = 200\<rparr>" and result = "Num 5" and xd = "Error ''Expected data to be a readable stream''"
       and ssm = halting_statics and sm = halting_statics and epm = open_endpoint
       and wm = "fresh_world (Str ''x'')" and pre = "[stamp ''A'']" and m = "reject ''R''"
       and post = "[stamp ''C'']"
       and vm = "\<lparr>req = req (fresh_world (Str ''x'')), res = \<lparr>statusCode = 200, headerFields = [(''x-seen-by'', ''A'')]\<rparr>, trace = [CallMiddleware ''A'']\<rparr>"
       and rqm = "req (fresh_world (Str ''x''))"
       and rsm = "\<lparr>statusCode = 200, headerFields = [(''x-seen-by'', ''A'')]\<rparr>"
       and xm = "Error ''rejected''"
       and epg = items_endpoint and sg = refusing_statics and ssg = refusing_statics
       and mwg = "reject ''auth''" and wg = "fresh_world (Str ''x'')"
       and rqg = "req (fresh_world (Str ''x''))" and rsg = "res (fresh_world (Str ''x''))"
       and xg = "Error ''rejected''"
       and epr = video_endpoint and stream = "ReadableStream ''video''" and trr = broken_transport
       and cause = "''EPIPE''" and vr = "fresh_world (Str ''x'')" and rhr = "\<lparr>response_headers = [], response_status = 200\<rparr>"]
  by (simp add: failing_endpoint_def no_headers_endpoint_def items_endpoint_def export_endpoint_def
      video_endpoint_def open_endpoint_def new_Endpoint_def setResponseType_def setAuthRequired_def
      fresh_world_def reject_def stamp_def registerAuthMiddleware_def registerMiddleware_def
      initial_statics_def halting_statics_def refusing_statics_def name_required_def
      before_process_def validated_def
      runAuthIfNeeded_def endpoint_handlers_def setupEndpoint_def router_post_def router_get_def
      dispatch_def call_middleware_def emit_def process_def Let_def getValidationErrors_def
      request_data_def default_headers_def setHeaders_def sendResponse_def ready_def
      JSON_def STREAM_def FILE_def working_transport_def broken_transport_def BadRequestException_def)

text \<open>
  C9, as stated, fails: on \<open>GET /video\<close> with a relay that fails, the \<open>Error\<close> thrown in
  the pipeline callback is raised by the dispatcher and never reaches \<open>next\<close>.
\<close>

theorem relay_failure_not_forwarded_counterexample:
  "responseType video_endpoint = STREAM \<and> isReadableStream (ReadableStream ''video'') \<and>
   pipeline broken_transport (ReadableStream ''video'') = Some ''EPIPE'' \<and>
   snd (run_handlers broken_transport initial_statics (endpoint_handlers initial_statics video_endpoint)
     (fresh_world (Str ''x''))) = NotCalled \<and>
   trace (dispatch broken_transport initial_statics (endpoint_handlers initial_statics video_endpoint)
     (fresh_world (Str ''x''))) =
     [CallHeaders \<lparr>body = Str ''x'', query = Undefined, params = Undefined, headers = []\<rparr>, SetStatusCode 200, CallExecute \<lparr>body = Str ''x'', query = Undefined, params = Undefined, headers = []\<rparr>,
      Pipeline (ReadableStream ''video''), PipeToResponse,
      ConsoleError ''Error writing stream in image endpoint'', ConsoleError ''EPIPE'',
      Uncaught (Error ''Error writing stream in image endpoint'')]"
  by (simp add: video_endpoint_def new_Endpoint_def setResponseType_def fresh_world_def
      initial_statics_def runAuthIfNeeded_def endpoint_handlers_def setupEndpoint_def
      router_get_def dispatch_def emit_def process_def Let_def getValidationErrors_def
      request_data_def default_headers_def setHeaders_def sendResponse_def
      JSON_def STREAM_def FILE_def broken_transport_def)

end
